theory Spec2Isabelle
  imports Complex_Main
begin

section \<open>Python values\<close>

text \<open>
  The records that \<open>build_inventory\<close> reads are decoded JSON, and the document it
  returns is a nested \<open>dict\<close>. Both are values of one type. A dict is an association
  list in insertion order. A float is a rational, an infinity or the decoder's NaN; the
  two zeros of a double compare equal and are both false, so they are one value here.
  A \<open>str\<close> is a list of characters whose content is only ever compared.
\<close>

datatype pyfloat = FNum rat | FPosInf | FNegInf | FNaN

datatype pyval =
    PNone
  | PBool bool
  | PInt int
  | PFloat pyfloat
  | PStr string
  | PList "pyval list"
  | PDict "(pyval \<times> pyval) list"

type_synonym pydict = "(pyval \<times> pyval) list"

datatype pyerror =
    TypeError
  | AttributeError
  | KeyError
  | IndexError
  | LibraryError string

text \<open>Truth value of an object, as \<open>or\<close> and \<open>if\<close> test it.\<close>

fun truthy :: "pyval \<Rightarrow> bool" where
  "truthy PNone = False"
| "truthy (PBool b) = b"
| "truthy (PInt i) = (i \<noteq> 0)"
| "truthy (PFloat f) = (f \<noteq> FNum 0)"
| "truthy (PStr s) = (s \<noteq> [])"
| "truthy (PList xs) = (xs \<noteq> [])"
| "truthy (PDict kvs) = (kvs \<noteq> [])"

text \<open>\<open>a or b\<close>: the first operand when it is true, the second otherwise.\<close>

definition py_or :: "pyval \<Rightarrow> pyval \<Rightarrow> pyval" where
  "py_or a b = (if truthy a then a else b)"

text \<open>Lists and dicts are unhashable: using one as a dict key raises \<open>TypeError\<close>.\<close>

fun hashable :: "pyval \<Rightarrow> bool" where
  "hashable (PList xs) = False"
| "hashable (PDict kvs) = False"
| "hashable v = True"

text \<open>
  Equality of dict keys. \<open>None\<close> equals only itself and a \<open>str\<close> only an equal
  \<open>str\<close>; \<open>bool\<close>, \<open>int\<close> and \<open>float\<close> compare by numeric value, so \<open>True\<close>,
  \<open>1\<close> and \<open>1.0\<close> are one key. The decoder hands out one NaN object and a dict
  lookup tests identity first, so NaN as a key matches itself.
\<close>

fun num_value :: "pyval \<Rightarrow> pyfloat option" where
  "num_value (PBool b) = Some (FNum (if b then 1 else 0))"
| "num_value (PInt i) = Some (FNum (of_int i))"
| "num_value (PFloat f) = Some f"
| "num_value v = None"

fun key_eq :: "pyval \<Rightarrow> pyval \<Rightarrow> bool" where
  "key_eq PNone PNone = True"
| "key_eq (PStr a) (PStr b) = (a = b)"
| "key_eq a b =
     (case num_value a of
        None \<Rightarrow> False
      | Some x \<Rightarrow> (case num_value b of None \<Rightarrow> False | Some y \<Rightarrow> x = y))"

text \<open>Lookup in a dict: the value of the first (the only) entry with an equal key.\<close>

fun dict_lookup :: "pydict \<Rightarrow> pyval \<Rightarrow> pyval option" where
  "dict_lookup [] k = None"
| "dict_lookup ((k', v) # kvs) k = (if key_eq k' k then Some v else dict_lookup kvs k)"

text \<open>
  Store in a dict: an entry with an equal key keeps its key and its place and takes the
  new value; a new key is added at the end.
\<close>

fun dict_store :: "pydict \<Rightarrow> pyval \<Rightarrow> pyval \<Rightarrow> pydict" where
  "dict_store [] k v = [(k, v)]"
| "dict_store ((k', v') # kvs) k v =
     (if key_eq k' k then (k', v) # kvs else (k', v') # dict_store kvs k v)"

definition has_key :: "pydict \<Rightarrow> pyval \<Rightarrow> bool" where
  "has_key kvs k = (dict_lookup kvs k \<noteq> None)"

text \<open>\<open>d.get(k, default)\<close> on the entries of a dict, for a \<open>str\<close> key.\<close>

definition dict_get :: "pydict \<Rightarrow> string \<Rightarrow> pyval \<Rightarrow> pyval" where
  "dict_get kvs k dflt = (case dict_lookup kvs (PStr k) of None \<Rightarrow> dflt | Some v \<Rightarrow> v)"

text \<open>
  \<open>x.get(k, default)\<close> on any value: only a dict has the method, every other decoded
  value raises \<open>AttributeError\<close>.
\<close>

definition py_get :: "pyval \<Rightarrow> string \<Rightarrow> pyval \<Rightarrow> pyerror + pyval" where
  "py_get x k dflt = (case x of PDict kvs \<Rightarrow> Inr (dict_get kvs k dflt) | _ \<Rightarrow> Inl AttributeError)"

text \<open>
  \<open>x[k]\<close> for a \<open>str\<close> key: a dict looks the key up and raises \<open>KeyError\<close> when it
  is missing; a list or a \<open>str\<close> takes no \<open>str\<close> index and nothing else is
  subscriptable: \<open>TypeError\<close>.
\<close>

definition getitem :: "pyval \<Rightarrow> string \<Rightarrow> pyerror + pyval" where
  "getitem x k =
     (case x of
        PDict kvs \<Rightarrow> (case dict_lookup kvs (PStr k) of None \<Rightarrow> Inl KeyError | Some v \<Rightarrow> Inr v)
      | _ \<Rightarrow> Inl TypeError)"

text \<open>
  \<open>x[k] = v\<close>. A dict stores under a hashable key. A list assigns at an integer index
  (a \<open>bool\<close> is an integer), negative indices counting from the end. Nothing else
  supports item assignment.
\<close>

fun index_value :: "pyval \<Rightarrow> int option" where
  "index_value (PBool b) = Some (if b then 1 else 0)"
| "index_value (PInt i) = Some i"
| "index_value v = None"

definition setitem :: "pyval \<Rightarrow> pyval \<Rightarrow> pyval \<Rightarrow> pyerror + pyval" where
  "setitem k v x =
     (case x of
        PDict kvs \<Rightarrow> (if hashable k then Inr (PDict (dict_store kvs k v)) else Inl TypeError)
      | PList xs \<Rightarrow>
          (case index_value k of
             None \<Rightarrow> Inl TypeError
           | Some i \<Rightarrow>
               (if - int (length xs) \<le> i \<and> i < int (length xs)
                then Inr (PList (xs[nat (i mod int (length xs)) := v]))
                else Inl IndexError))
      | _ \<Rightarrow> Inl TypeError)"

text \<open>\<open>x.append(v)\<close>: only a list has the method.\<close>

definition py_append :: "pyval \<Rightarrow> pyval \<Rightarrow> pyerror + pyval" where
  "py_append v x = (case x of PList xs \<Rightarrow> Inr (PList (xs @ [v])) | _ \<Rightarrow> Inl AttributeError)"

text \<open>
  The code mutates objects nested in the document in place:
  \<open>inventory['switches']['hosts'].append(h)\<close> subscripts along a path and changes the
  object found there. No object of the document is reachable along two paths, so the
  change is the same document with that one object replaced. \<open>update_at\<close> subscripts
  along the path, applies the operation and puts the result back.
\<close>

fun update_at :: "string list \<Rightarrow> (pyval \<Rightarrow> pyerror + pyval) \<Rightarrow> pyval \<Rightarrow> pyerror + pyval" where
  "update_at [] f x = f x"
| "update_at (k # ks) f x =
     (case getitem x k of
        Inl e \<Rightarrow> Inl e
      | Inr y \<Rightarrow>
          (case update_at ks f y of
             Inl e \<Rightarrow> Inl e
           | Inr y' \<Rightarrow> setitem (PStr k) y' x))"

text \<open>
  \<open>for x in v\<close>: a list yields its elements, a dict its keys, a \<open>str\<close> its
  characters as one-character strings; any other decoded value is not iterable.
\<close>

definition py_iter :: "pyval \<Rightarrow> pyerror + pyval list" where
  "py_iter v =
     (case v of
        PList xs \<Rightarrow> Inr xs
      | PDict kvs \<Rightarrow> Inr (map fst kvs)
      | PStr s \<Rightarrow> Inr (map (\<lambda>c. PStr [c]) s)
      | _ \<Rightarrow> Inl TypeError)"

text \<open>A loop body run over the elements in order; an exception ends the loop.\<close>

fun for_each :: "(pyval \<Rightarrow> pyval \<Rightarrow> pyerror + pyval) \<Rightarrow> pyval \<Rightarrow> pyval list \<Rightarrow> pyerror + pyval" where
  "for_each body doc [] = Inr doc"
| "for_each body doc (x # xs) =
     (case body doc x of Inl e \<Rightarrow> Inl e | Inr doc' \<Rightarrow> for_each body doc' xs)"

section \<open>\<open>json.dumps\<close>\<close>

text \<open>
  What \<open>json.dumps\<close> writes, as a tree: the layout (\<open>indent=2\<close>) is not kept. The
  keys of an object are text: a \<open>str\<close> key is written as it is, \<open>None\<close>,
  \<open>True\<close> and \<open>False\<close> as \<open>null\<close>, \<open>true\<close> and \<open>false\<close>, an \<open>int\<close> in
  decimal and a \<open>float\<close> as \<open>float.__repr__\<close> writes it, which is kept as the float.
  Any other key raises \<open>TypeError\<close>. Two keys of a dict may be written as the same
  text; both are written.
\<close>

datatype jkey = Key string | FloatKey pyfloat

datatype json =
    JNull
  | JBool bool
  | JInt int
  | JFloat pyfloat
  | JStr string
  | JArray "json list"
  | JObject "(jkey \<times> json) list"

text \<open>The decimal text of an \<open>int\<close>.\<close>

fun nat_text :: "nat \<Rightarrow> string" where
  "nat_text n =
     (if n < 10 then [''0123456789'' ! n]
      else nat_text (n div 10) @ [''0123456789'' ! (n mod 10)])"

declare nat_text.simps [simp del]

definition int_text :: "int \<Rightarrow> string" where
  "int_text i = (if i < 0 then CHR ''-'' # nat_text (nat (- i)) else nat_text (nat i))"

text \<open>The text of a key, in the order the encoder tests the types.\<close>

fun key_text :: "pyval \<Rightarrow> jkey option" where
  "key_text (PStr s) = Some (Key s)"
| "key_text (PFloat f) = Some (FloatKey f)"
| "key_text (PBool b) = Some (Key (if b then ''true'' else ''false''))"
| "key_text PNone = Some (Key ''null'')"
| "key_text (PInt i) = Some (Key (int_text i))"
| "key_text v = None"

text \<open>
  \<open>json.dumps\<close>: the items of a dict in order, the key of an item before its value.
\<close>

fun json_dumps :: "pyval \<Rightarrow> pyerror + json"
  and dumps_list :: "pyval list \<Rightarrow> pyerror + json list"
  and dumps_items :: "(pyval \<times> pyval) list \<Rightarrow> pyerror + (jkey \<times> json) list" where
  "json_dumps PNone = Inr JNull"
| "json_dumps (PBool b) = Inr (JBool b)"
| "json_dumps (PInt i) = Inr (JInt i)"
| "json_dumps (PFloat f) = Inr (JFloat f)"
| "json_dumps (PStr s) = Inr (JStr s)"
| "json_dumps (PList xs) = (case dumps_list xs of Inl e \<Rightarrow> Inl e | Inr js \<Rightarrow> Inr (JArray js))"
| "json_dumps (PDict kvs) = (case dumps_items kvs of Inl e \<Rightarrow> Inl e | Inr ms \<Rightarrow> Inr (JObject ms))"
| "dumps_list [] = Inr []"
| "dumps_list (x # xs) =
     (case json_dumps x of
        Inl e \<Rightarrow> Inl e
      | Inr j \<Rightarrow> (case dumps_list xs of Inl e \<Rightarrow> Inl e | Inr js \<Rightarrow> Inr (j # js)))"
| "dumps_items [] = Inr []"
| "dumps_items ((k, v) # kvs) =
     (case key_text k of
        None \<Rightarrow> Inl TypeError
      | Some t \<Rightarrow>
          (case json_dumps v of
             Inl e \<Rightarrow> Inl e
           | Inr j \<Rightarrow> (case dumps_items kvs of Inl e \<Rightarrow> Inl e | Inr ms \<Rightarrow> Inr ((t, j) # ms))))"


section \<open>The controller, as one run sees it\<close>

text \<open>
  The HTTP session and \<open>b64decode\<close> are library code. A run observes one outcome for
  each call it makes: decoding the password gives the password or raises, the login
  request gives a status code or raises, and each of the two queries raises or gives a
  response with a status code and a body whose \<open>json()\<close> gives a value or raises.
\<close>

datatype fetch = Raises pyerror | Response int "pyerror + pyval"

record world =
  password_decoded :: "pyerror + string"
  login_response :: "pyerror + int"
  devices_fetch :: fetch
  clients_fetch :: fetch

text \<open>What a run writes to standard error, and how the process ends.\<close>

datatype diag =
    Wrote string pyerror
  | ExitMessage string
  | Traceback pyerror

record outcome =
  stdout :: "json list"
  stderr :: "diag list"
  exit_status :: int

section \<open>\<open>UnifiInventory\<close>\<close>

definition authenticate :: "world \<Rightarrow> diag list \<times> bool" where
  "authenticate w =
     (case password_decoded w of
        Inl e \<Rightarrow> ([Wrote ''Authentication failed: '' e], False)
      | Inr password \<Rightarrow>
          (case login_response w of
             Inl e \<Rightarrow> ([Wrote ''Authentication failed: '' e], False)
           | Inr status_code \<Rightarrow> ([], status_code = 200)))"

text \<open>
  \<open>get_devices\<close> and \<open>get_clients\<close> differ in the URL and the message only. An
  exception of the request, of \<open>json()\<close> or of \<open>.get\<close> on a body that is not a
  dict is caught, reported and turned into the empty list.
\<close>

definition fetch_data :: "string \<Rightarrow> fetch \<Rightarrow> diag list \<times> pyval" where
  "fetch_data msg f =
     (case f of
        Raises e \<Rightarrow> ([Wrote msg e], PList [])
      | Response status_code body \<Rightarrow>
          (if status_code = 200 then
             (case body of
                Inl e \<Rightarrow> ([Wrote msg e], PList [])
              | Inr v \<Rightarrow>
                  (case py_get v ''data'' (PList []) of
                     Inl e \<Rightarrow> ([Wrote msg e], PList [])
                   | Inr d \<Rightarrow> ([], d)))
           else ([], PList [])))"

definition get_devices :: "world \<Rightarrow> diag list \<times> pyval" where
  "get_devices w = fetch_data ''Failed to fetch devices: '' (devices_fetch w)"

definition get_clients :: "world \<Rightarrow> diag list \<times> pyval" where
  "get_clients w = fetch_data ''Failed to fetch clients: '' (clients_fetch w)"

text \<open>The document \<open>build_inventory\<close> starts from.\<close>

definition skeleton :: pyval where
  "skeleton = PDict
     [(PStr ''_meta'', PDict [(PStr ''hostvars'', PDict [])]),
      (PStr ''all'', PDict [(PStr ''children'', PList [PStr ''unifi_devices'', PStr ''unifi_clients''])]),
      (PStr ''unifi_devices'',
         PDict [(PStr ''children'', PList [PStr ''switches'', PStr ''aps'', PStr ''gateways''])]),
      (PStr ''switches'', PDict [(PStr ''hosts'', PList [])]),
      (PStr ''aps'', PDict [(PStr ''hosts'', PList [])]),
      (PStr ''gateways'', PDict [(PStr ''hosts'', PList [])]),
      (PStr ''unifi_clients'',
         PDict [(PStr ''children'', PList [PStr ''wired_clients'', PStr ''wireless_clients''])]),
      (PStr ''wired_clients'', PDict [(PStr ''hosts'', PList [])]),
      (PStr ''wireless_clients'', PDict [(PStr ''hosts'', PList [])])]"

text \<open>The body of the loop over the devices.\<close>

definition device_hostname :: "pydict \<Rightarrow> pyval" where
  "device_hostname device = py_or (dict_get device ''name'' PNone) (dict_get device ''mac'' PNone)"

definition device_type :: "pydict \<Rightarrow> pyval" where
  "device_type device = dict_get device ''type'' (PStr ''unknown'')"

definition device_vars :: "pydict \<Rightarrow> pyval" where
  "device_vars device = PDict
     [(PStr ''mac_address'', dict_get device ''mac'' PNone),
      (PStr ''ip_address'', dict_get device ''ip'' PNone),
      (PStr ''model'', dict_get device ''model'' PNone),
      (PStr ''version'', dict_get device ''version'' PNone),
      (PStr ''device_type'', device_type device),
      (PStr ''adoption_state'', dict_get device ''state'' (PInt 1)),
      (PStr ''unifi_device'', PBool True)]"

definition process_device :: "pyval \<Rightarrow> pyval \<Rightarrow> pyerror + pyval" where
  "process_device inventory x =
     (case x of
        PDict device \<Rightarrow>
          (let hostname = device_hostname device
           in case update_at [''_meta'', ''hostvars''] (setitem hostname (device_vars device)) inventory of
                Inl e \<Rightarrow> Inl e
              | Inr inventory' \<Rightarrow>
                  (if device_type device = PStr ''usw'' then
                     update_at [''switches'', ''hosts''] (py_append hostname) inventory'
                   else if device_type device = PStr ''uap'' then
                     update_at [''aps'', ''hosts''] (py_append hostname) inventory'
                   else if device_type device = PStr ''ugw'' then
                     update_at [''gateways'', ''hosts''] (py_append hostname) inventory'
                   else Inr inventory'))
      | _ \<Rightarrow> Inl AttributeError)"

text \<open>The body of the loop over the clients.\<close>

definition client_hostname :: "pydict \<Rightarrow> pyval" where
  "client_hostname client = py_or (dict_get client ''hostname'' PNone) (dict_get client ''mac'' PNone)"

definition is_wired :: "pydict \<Rightarrow> pyval" where
  "is_wired client = dict_get client ''is_wired'' (PBool False)"

definition client_vars :: "pydict \<Rightarrow> pyval" where
  "client_vars client = PDict
     [(PStr ''mac_address'', dict_get client ''mac'' PNone),
      (PStr ''ip_address'', dict_get client ''ip'' PNone),
      (PStr ''hostname'', dict_get client ''hostname'' PNone),
      (PStr ''is_wired'', is_wired client),
      (PStr ''last_seen'', dict_get client ''last_seen'' PNone),
      (PStr ''unifi_client'', PBool True)]"

definition process_client :: "pyval \<Rightarrow> pyval \<Rightarrow> pyerror + pyval" where
  "process_client inventory x =
     (case x of
        PDict client \<Rightarrow>
          (let hostname = client_hostname client
           in case update_at [''_meta'', ''hostvars''] (setitem hostname (client_vars client)) inventory of
                Inl e \<Rightarrow> Inl e
              | Inr inventory' \<Rightarrow>
                  (if truthy (is_wired client) then
                     update_at [''wired_clients'', ''hosts''] (py_append hostname) inventory'
                   else
                     update_at [''wireless_clients'', ''hosts''] (py_append hostname) inventory'))
      | _ \<Rightarrow> Inl AttributeError)"

text \<open>The two loops: iterate over what the query returned.\<close>

definition process_devices :: "pyval \<Rightarrow> pyval \<Rightarrow> pyerror + pyval" where
  "process_devices inventory devices =
     (case py_iter devices of Inl e \<Rightarrow> Inl e | Inr xs \<Rightarrow> for_each process_device inventory xs)"

definition process_clients :: "pyval \<Rightarrow> pyval \<Rightarrow> pyerror + pyval" where
  "process_clients inventory clients =
     (case py_iter clients of Inl e \<Rightarrow> Inl e | Inr xs \<Rightarrow> for_each process_client inventory xs)"

text \<open>
  \<open>build_inventory\<close> queries the devices, runs the first loop, and only then queries
  the clients and runs the second loop. It returns what the queries wrote to standard
  error and the document, or the exception that ended it.
\<close>

definition build_inventory :: "world \<Rightarrow> diag list \<times> (pyerror + pyval)" where
  "build_inventory w =
     (case get_devices w of
        (err1, devices) \<Rightarrow>
          (case process_devices skeleton devices of
             Inl e \<Rightarrow> (err1, Inl e)
           | Inr inventory \<Rightarrow>
               (case get_clients w of
                  (err2, clients) \<Rightarrow> (err1 @ err2, process_clients inventory clients))))"

text \<open>
  \<open>run\<close>: \<open>sys.exit\<close> with a message writes it to standard error and ends the
  process with status 1, and so does an exception nobody catches, with its traceback.
  \<open>print(json.dumps(document, indent=2))\<close> prints what \<open>json.dumps\<close> returns; when
  \<open>json.dumps\<close> raises, nothing is printed.
\<close>

definition run :: "world \<Rightarrow> outcome" where
  "run w =
     (case authenticate w of
        (err0, ok) \<Rightarrow>
          (if \<not> ok then
             \<lparr>stdout = [], stderr = err0 @ [ExitMessage ''Authentication failed''], exit_status = 1\<rparr>
           else
             (case build_inventory w of
                (err, Inl e) \<Rightarrow> \<lparr>stdout = [], stderr = err0 @ err @ [Traceback e], exit_status = 1\<rparr>
              | (err, Inr inventory) \<Rightarrow>
                  (case json_dumps inventory of
                     Inl e \<Rightarrow> \<lparr>stdout = [], stderr = err0 @ err @ [Traceback e], exit_status = 1\<rparr>
                   | Inr text \<Rightarrow> \<lparr>stdout = [text], stderr = err0 @ err, exit_status = 0\<rparr>))))"

section \<open>Reading the result\<close>

text \<open>
  \<open>doc['_meta']['hostvars']\<close> and \<open>doc[g]['hosts']\<close> of a document, and the same of
  the document that \<open>build_inventory\<close> returns in a world: an exception of
  \<open>build_inventory\<close> or of the subscripts is an \<open>Inl\<close>.
\<close>

definition hostvars_of :: "pyval \<Rightarrow> pyerror + pyval" where
  "hostvars_of doc = (case getitem doc ''_meta'' of Inl e \<Rightarrow> Inl e | Inr m \<Rightarrow> getitem m ''hostvars'')"

definition hosts_of :: "pyval \<Rightarrow> string \<Rightarrow> pyerror + pyval" where
  "hosts_of doc g = (case getitem doc g of Inl e \<Rightarrow> Inl e | Inr grp \<Rightarrow> getitem grp ''hosts'')"

definition inventory_hostvars :: "world \<Rightarrow> pyerror + pyval" where
  "inventory_hostvars w = (case snd (build_inventory w) of Inl e \<Rightarrow> Inl e | Inr doc \<Rightarrow> hostvars_of doc)"

definition inventory_hosts :: "world \<Rightarrow> string \<Rightarrow> pyerror + pyval" where
  "inventory_hosts w g = (case snd (build_inventory w) of Inl e \<Rightarrow> Inl e | Inr doc \<Rightarrow> hosts_of doc g)"

text \<open>
  \<open>k in doc['_meta']['hostvars']\<close> and \<open>h in doc[g]['hosts']\<close> for the returned
  document; false when there is none.
\<close>

definition hostvars_key :: "world \<Rightarrow> pyval \<Rightarrow> bool" where
  "hostvars_key w k = (case inventory_hostvars w of Inr (PDict hv) \<Rightarrow> has_key hv k | _ \<Rightarrow> False)"

definition listed_in :: "world \<Rightarrow> string \<Rightarrow> pyval \<Rightarrow> bool" where
  "listed_in w g h = (case inventory_hosts w g of Inr (PList hs) \<Rightarrow> h \<in> set hs | _ \<Rightarrow> False)"

text \<open>The five groups that have a hosts list.\<close>

definition host_groups :: "string list" where
  "host_groups = [''switches'', ''aps'', ''gateways'', ''wired_clients'', ''wireless_clients'']"

text \<open>
  The two kinds of hostvars entry: a dict with exactly the seven device keys, in the
  order written, whose \<open>unifi_device\<close> is \<open>True\<close> and which has no \<open>unifi_client\<close>
  key; and a dict with exactly the six client keys whose \<open>unifi_client\<close> is \<open>True\<close>
  and which has no \<open>unifi_device\<close> key.
\<close>

definition device_keys :: "pyval list" where
  "device_keys = map PStr [''mac_address'', ''ip_address'', ''model'', ''version'', ''device_type'',
     ''adoption_state'', ''unifi_device'']"

definition client_keys :: "pyval list" where
  "client_keys = map PStr [''mac_address'', ''ip_address'', ''hostname'', ''is_wired'', ''last_seen'',
     ''unifi_client'']"

definition device_entry :: "pyval \<Rightarrow> bool" where
  "device_entry v =
     (case v of
        PDict e \<Rightarrow> map fst e = device_keys \<and> dict_lookup e (PStr ''unifi_device'') = Some (PBool True) \<and>
          \<not> has_key e (PStr ''unifi_client'')
      | _ \<Rightarrow> False)"

definition client_entry :: "pyval \<Rightarrow> bool" where
  "client_entry v =
     (case v of
        PDict e \<Rightarrow> map fst e = client_keys \<and> dict_lookup e (PStr ''unifi_client'') = Some (PBool True) \<and>
          \<not> has_key e (PStr ''unifi_device'')
      | _ \<Rightarrow> False)"



section \<open>The loops in closed form\<close>

text \<open>
  \<open>document\<close> is the skeleton with the six objects that the loops change left open:
  the hostvars dict and the five hosts lists. Every state of the two loops is such a
  document.
\<close>

definition document :: "pydict \<Rightarrow> pyval list \<Rightarrow> pyval list \<Rightarrow> pyval list \<Rightarrow> pyval list \<Rightarrow> pyval list \<Rightarrow> pyval" where
  "document hv sw ap gw wi wl = PDict
     [(PStr ''_meta'', PDict [(PStr ''hostvars'', PDict hv)]),
      (PStr ''all'', PDict [(PStr ''children'', PList [PStr ''unifi_devices'', PStr ''unifi_clients''])]),
      (PStr ''unifi_devices'',
         PDict [(PStr ''children'', PList [PStr ''switches'', PStr ''aps'', PStr ''gateways''])]),
      (PStr ''switches'', PDict [(PStr ''hosts'', PList sw)]),
      (PStr ''aps'', PDict [(PStr ''hosts'', PList ap)]),
      (PStr ''gateways'', PDict [(PStr ''hosts'', PList gw)]),
      (PStr ''unifi_clients'',
         PDict [(PStr ''children'', PList [PStr ''wired_clients'', PStr ''wireless_clients''])]),
      (PStr ''wired_clients'', PDict [(PStr ''hosts'', PList wi)]),
      (PStr ''wireless_clients'', PDict [(PStr ''hosts'', PList wl)])]"

text \<open>
  The elements a loop gets through without an exception: dicts whose host identifier is
  hashable. \<open>entries\<close> reads the fields of such an element.
\<close>

definition device_record :: "pyval \<Rightarrow> bool" where
  "device_record x = (case x of PDict d \<Rightarrow> hashable (device_hostname d) | _ \<Rightarrow> False)"

definition client_record :: "pyval \<Rightarrow> bool" where
  "client_record x = (case x of PDict c \<Rightarrow> hashable (client_hostname c) | _ \<Rightarrow> False)"

definition entries :: "pyval \<Rightarrow> pydict" where
  "entries x = (case x of PDict d \<Rightarrow> d | _ \<Rightarrow> [])"

text \<open>
  What a loop leaves behind: \<open>stored\<close> is the hostvars dict after one store per
  element, in order; \<open>listed\<close> is a hosts list, the identifiers of the elements that
  the list's test selects, in order and one per element. \<open>assembled\<close> is the document
  after both loops.
\<close>

definition stored :: "(pydict \<Rightarrow> pyval) \<Rightarrow> (pydict \<Rightarrow> pyval) \<Rightarrow> pydict \<Rightarrow> pyval list \<Rightarrow> pydict" where
  "stored name vars hv xs = foldl (\<lambda>h x. dict_store h (name (entries x)) (vars (entries x))) hv xs"

definition listed :: "(pydict \<Rightarrow> pyval) \<Rightarrow> (pydict \<Rightarrow> bool) \<Rightarrow> pyval list \<Rightarrow> pyval list" where
  "listed name p xs = map (\<lambda>x. name (entries x)) (filter (\<lambda>x. p (entries x)) xs)"

definition has_type :: "string \<Rightarrow> pydict \<Rightarrow> bool" where
  "has_type t d = (device_type d = PStr t)"

definition assembled :: "pyval list \<Rightarrow> pyval list \<Rightarrow> pyval" where
  "assembled xs ys =
     document (stored client_hostname client_vars (stored device_hostname device_vars [] xs) ys)
       (listed device_hostname (has_type ''usw'') xs)
       (listed device_hostname (has_type ''uap'') xs)
       (listed device_hostname (has_type ''ugw'') xs)
       (listed client_hostname (\<lambda>c. truthy (is_wired c)) ys)
       (listed client_hostname (\<lambda>c. \<not> truthy (is_wired c)) ys)"

section \<open>Example inputs\<close>

text \<open>
  A controller that accepts the login and answers both queries with status 200 and the
  given data.
\<close>

definition controller :: "pyval \<Rightarrow> pyval \<Rightarrow> world" where
  "controller devices clients =
     \<lparr>password_decoded = Inr ''secret'',
      login_response = Inr 200,
      devices_fetch = Response 200
        (Inr (PDict [(PStr ''meta'', PDict [(PStr ''rc'', PStr ''ok'')]), (PStr ''data'', devices)])),
      clients_fetch = Response 200
        (Inr (PDict [(PStr ''meta'', PDict [(PStr ''rc'', PStr ''ok'')]), (PStr ''data'', clients)]))\<rparr>"

text \<open>A switch and a wireless client without a host name, and records that collide with them.\<close>

definition sw1 :: pydict where
  "sw1 = [(PStr ''name'', PStr ''sw1''), (PStr ''mac'', PStr ''aa:bb''),
          (PStr ''type'', PStr ''usw''), (PStr ''ip'', PStr ''10.0.0.1'')]"

definition sw1_twin :: pydict where
  "sw1_twin = [(PStr ''name'', PStr ''sw1''), (PStr ''mac'', PStr ''aa:cc''), (PStr ''type'', PStr ''usw'')]"

definition laptop :: pydict where
  "laptop = [(PStr ''hostname'', PNone), (PStr ''mac'', PStr ''cc:dd''), (PStr ''is_wired'', PBool False)]"

definition laptop_twin :: pydict where
  "laptop_twin = [(PStr ''mac'', PStr ''cc:dd''), (PStr ''ip'', PStr ''10.0.0.9'')]"

text \<open>
  An access point, a device of a type that has no group and a wired client, all named
  \<open>host1\<close>; a gateway.
\<close>

definition host1_ap :: pydict where
  "host1_ap = [(PStr ''name'', PStr ''host1''), (PStr ''type'', PStr ''uap'')]"

definition host1_udm :: pydict where
  "host1_udm = [(PStr ''name'', PStr ''host1''), (PStr ''type'', PStr ''udm'')]"

definition host1_pc :: pydict where
  "host1_pc = [(PStr ''hostname'', PStr ''host1''), (PStr ''is_wired'', PBool True)]"

definition gw1 :: pydict where
  "gw1 = [(PStr ''name'', PStr ''gw1''), (PStr ''type'', PStr ''ugw'')]"

text \<open>A camera; a switch and a device of another type that share the name \<open>core\<close>.\<close>

definition camera :: pydict where
  "camera = [(PStr ''name'', PStr ''cam1''), (PStr ''mac'', PStr ''ee:ff''), (PStr ''type'', PStr ''uvc'')]"

definition core_usw :: pydict where
  "core_usw = [(PStr ''name'', PStr ''core''), (PStr ''mac'', PStr ''aa:01''), (PStr ''type'', PStr ''usw'')]"

definition core_udm :: pydict where
  "core_udm = [(PStr ''name'', PStr ''core''), (PStr ''mac'', PStr ''aa:02''), (PStr ''type'', PStr ''udm'')]"

text \<open>An access point and a wired client with neither name nor MAC.\<close>

definition nameless_ap :: pydict where
  "nameless_ap = [(PStr ''type'', PStr ''uap''), (PStr ''ip'', PStr ''10.0.0.7'')]"

definition nameless_pc :: pydict where
  "nameless_pc = [(PStr ''ip'', PStr ''10.0.0.8''), (PStr ''is_wired'', PBool True)]"

text \<open>A switch that has a MAC and no name.\<close>

definition anon_sw :: pydict where
  "anon_sw = [(PStr ''mac'', PStr ''aa:dd''), (PStr ''type'', PStr ''usw'')]"

text \<open>
  A controller that answers the login with 401, and one that answers the client query
  with 503.
\<close>

definition unauthorized :: world where
  "unauthorized = (controller (PList [PDict sw1]) (PList [PDict laptop]))\<lparr>login_response := Inr 401\<rparr>"


section \<open>The loops on a document\<close>

lemma skeleton_document: "skeleton = document [] [] [] [] [] []"
  by (simp add: skeleton_def document_def)

lemma store_hostvars:
  "update_at [''_meta'', ''hostvars''] (setitem h e) (document hv sw ap gw wi wl) =
     (if hashable h then Inr (document (dict_store hv h e) sw ap gw wi wl) else Inl TypeError)"
  by (simp add: document_def getitem_def setitem_def)

lemma append_switches:
  "update_at [''switches'', ''hosts''] (py_append h) (document hv sw ap gw wi wl) =
     Inr (document hv (sw @ [h]) ap gw wi wl)"
  by (simp add: document_def getitem_def setitem_def py_append_def)

lemma append_aps:
  "update_at [''aps'', ''hosts''] (py_append h) (document hv sw ap gw wi wl) =
     Inr (document hv sw (ap @ [h]) gw wi wl)"
  by (simp add: document_def getitem_def setitem_def py_append_def)

lemma append_gateways:
  "update_at [''gateways'', ''hosts''] (py_append h) (document hv sw ap gw wi wl) =
     Inr (document hv sw ap (gw @ [h]) wi wl)"
  by (simp add: document_def getitem_def setitem_def py_append_def)

lemma append_wired:
  "update_at [''wired_clients'', ''hosts''] (py_append h) (document hv sw ap gw wi wl) =
     Inr (document hv sw ap gw (wi @ [h]) wl)"
  by (simp add: document_def getitem_def setitem_def py_append_def)

lemma append_wireless:
  "update_at [''wireless_clients'', ''hosts''] (py_append h) (document hv sw ap gw wi wl) =
     Inr (document hv sw ap gw wi (wl @ [h]))"
  by (simp add: document_def getitem_def setitem_def py_append_def)

lemma hostvars_of_document: "hostvars_of (document hv sw ap gw wi wl) = Inr (PDict hv)"
  by (simp add: hostvars_of_def document_def getitem_def)

lemma hosts_of_document:
  "hosts_of (document hv sw ap gw wi wl) ''switches'' = Inr (PList sw)"
  "hosts_of (document hv sw ap gw wi wl) ''aps'' = Inr (PList ap)"
  "hosts_of (document hv sw ap gw wi wl) ''gateways'' = Inr (PList gw)"
  "hosts_of (document hv sw ap gw wi wl) ''wired_clients'' = Inr (PList wi)"
  "hosts_of (document hv sw ap gw wi wl) ''wireless_clients'' = Inr (PList wl)"
  by (simp_all add: hosts_of_def document_def getitem_def)

lemma process_device_document:
  "process_device (document hv sw ap gw wi wl) x =
     (if device_record x then
        Inr (document (dict_store hv (device_hostname (entries x)) (device_vars (entries x)))
               (sw @ listed device_hostname (has_type ''usw'') [x])
               (ap @ listed device_hostname (has_type ''uap'') [x])
               (gw @ listed device_hostname (has_type ''ugw'') [x]) wi wl)
      else Inl (case x of PDict d \<Rightarrow> TypeError | _ \<Rightarrow> AttributeError))"
  by (cases x)
    (simp_all add: process_device_def device_record_def entries_def listed_def has_type_def Let_def
      store_hostvars append_switches append_aps append_gateways del: update_at.simps)

lemma process_client_document:
  "process_client (document hv sw ap gw wi wl) x =
     (if client_record x then
        Inr (document (dict_store hv (client_hostname (entries x)) (client_vars (entries x)))
               sw ap gw
               (wi @ listed client_hostname (\<lambda>c. truthy (is_wired c)) [x])
               (wl @ listed client_hostname (\<lambda>c. \<not> truthy (is_wired c)) [x]))
      else Inl (case x of PDict d \<Rightarrow> TypeError | _ \<Rightarrow> AttributeError))"
  by (cases x)
    (simp_all add: process_client_def client_record_def entries_def listed_def Let_def
      store_hostvars append_wired append_wireless del: update_at.simps)

lemma listed_Cons: "listed name p (x # xs) = listed name p [x] @ listed name p xs"
  by (simp add: listed_def)

lemma stored_Cons:
  "stored name vars hv (x # xs) = stored name vars (dict_store hv (name (entries x)) (vars (entries x))) xs"
  by (simp add: stored_def)

lemma for_each_devices:
  "for_each process_device (document hv sw ap gw wi wl) xs = Inr doc' \<longleftrightarrow>
     list_all device_record xs \<and>
     doc' = document (stored device_hostname device_vars hv xs)
              (sw @ listed device_hostname (has_type ''usw'') xs)
              (ap @ listed device_hostname (has_type ''uap'') xs)
              (gw @ listed device_hostname (has_type ''ugw'') xs) wi wl"
proof (induction xs arbitrary: hv sw ap gw)
  case Nil
  show ?case by (auto simp add: stored_def listed_def)
next
  case (Cons x xs)
  show ?case
  proof (cases "device_record x")
    case True
    then show ?thesis
      using Cons.IH
      by (simp add: process_device_document stored_Cons listed_Cons [of _ _ x xs])
  next
    case False
    then show ?thesis by (simp add: process_device_document)
  qed
qed

lemma for_each_clients:
  "for_each process_client (document hv sw ap gw wi wl) xs = Inr doc' \<longleftrightarrow>
     list_all client_record xs \<and>
     doc' = document (stored client_hostname client_vars hv xs) sw ap gw
              (wi @ listed client_hostname (\<lambda>c. truthy (is_wired c)) xs)
              (wl @ listed client_hostname (\<lambda>c. \<not> truthy (is_wired c)) xs)"
proof (induction xs arbitrary: hv wi wl)
  case Nil
  show ?case by (auto simp add: stored_def listed_def)
next
  case (Cons x xs)
  show ?case
  proof (cases "client_record x")
    case True
    then show ?thesis
      using Cons.IH
      by (simp add: process_client_document stored_Cons listed_Cons [of _ _ x xs])
  next
    case False
    then show ?thesis by (simp add: process_client_document)
  qed
qed

section \<open>Dict keys and stores\<close>

text \<open>
  Key equality is symmetric and transitive, and reflexive on hashable values, so a lookup
  after a store finds the stored value under every equal key and is unchanged elsewhere.
\<close>

lemma key_eq_iff:
  "key_eq a b \<longleftrightarrow>
     (a = PNone \<and> b = PNone) \<or> (\<exists>s. a = PStr s \<and> b = PStr s) \<or>
     (\<exists>x. num_value a = Some x \<and> num_value b = Some x)"
  by (cases a; cases b) auto

lemma key_eq_refl: "hashable k \<Longrightarrow> key_eq k k"
  by (cases k) simp_all

lemma key_eq_sym: "key_eq a b \<Longrightarrow> key_eq b a"
  unfolding key_eq_iff by auto

lemma key_eq_trans: "key_eq a b \<Longrightarrow> key_eq b c \<Longrightarrow> key_eq a c"
  unfolding key_eq_iff by auto

lemma lookup_store:
  "dict_lookup (dict_store kvs k v) k' = (if key_eq k k' then Some v else dict_lookup kvs k')"
proof (induction kvs)
  case Nil
  show ?case by simp
next
  case (Cons p kvs)
  obtain k1 v1 where p: "p = (k1, v1)" by (cases p)
  show ?case
  proof (cases "key_eq k1 k")
    case True
    have "key_eq k1 k' \<longleftrightarrow> key_eq k k'"
      using True key_eq_trans [of k1 k k'] key_eq_trans [of k k1 k'] key_eq_sym [of k1 k] by blast
    with True show ?thesis by (simp add: p)
  next
    case False
    have "\<not> (key_eq k1 k' \<and> key_eq k k')"
      using False key_eq_trans [of k1 k' k] key_eq_sym [of k k'] by blast
    with False show ?thesis by (auto simp add: p Cons.IH)
  qed
qed

lemma has_key_store: "has_key (dict_store kvs k v) k' \<longleftrightarrow> key_eq k k' \<or> has_key kvs k'"
  by (simp add: has_key_def lookup_store)

lemma has_key_stored:
  "has_key (stored name vars hv xs) k \<longleftrightarrow>
     has_key hv k \<or> (\<exists>x\<in>set xs. key_eq (name (entries x)) k)"
proof (induction xs arbitrary: hv)
  case Nil
  show ?case by (simp add: stored_def)
next
  case (Cons x xs)
  show ?case by (auto simp add: stored_Cons Cons.IH has_key_store)
qed

lemma lookup_stored_other:
  "\<forall>x\<in>set xs. \<not> key_eq (name (entries x)) k \<Longrightarrow>
     dict_lookup (stored name vars hv xs) k = dict_lookup hv k"
proof (induction xs arbitrary: hv)
  case Nil
  show ?case by (simp add: stored_def)
next
  case (Cons x xs)
  then show ?case by (simp add: stored_Cons lookup_store)
qed

lemma lookup_stored_last:
  assumes "key_eq (name (entries x)) k"
    and "\<forall>x'\<in>set xs'. \<not> key_eq (name (entries x')) k"
  shows "dict_lookup (stored name vars hv (xs @ x # xs')) k = Some (vars (entries x))"
proof -
  have "stored name vars hv (xs @ x # xs') =
      stored name vars (dict_store (stored name vars hv xs) (name (entries x)) (vars (entries x))) xs'"
    by (simp add: stored_def)
  then show ?thesis
    using assms by (simp add: lookup_stored_other lookup_store)
qed

lemma values_store:
  "(k', v') \<in> set (dict_store kvs k v) \<Longrightarrow> v' = v \<or> v' \<in> snd ` set kvs"
proof (induction kvs)
  case Nil
  then show ?case by simp
next
  case (Cons p kvs)
  obtain k1 v1 where p: "p = (k1, v1)" by (cases p)
  show ?case
  proof (cases "key_eq k1 k")
    case True
    with Cons.prems show ?thesis by (force simp add: p)
  next
    case False
    with Cons.prems have "(k', v') = (k1, v1) \<or> (k', v') \<in> set (dict_store kvs k v)"
      by (simp add: p)
    with Cons.IH show ?thesis by (force simp add: p)
  qed
qed

lemma values_stored:
  "(k, v) \<in> set (stored name vars hv xs) \<Longrightarrow>
     v \<in> snd ` set hv \<or> (\<exists>x\<in>set xs. v = vars (entries x))"
proof (induction xs arbitrary: hv)
  case Nil
  then show ?case by (force simp add: stored_def)
next
  case (Cons x xs)
  from Cons.prems have "(k, v) \<in> set (stored name vars (dict_store hv (name (entries x)) (vars (entries x))) xs)"
    by (simp add: stored_Cons)
  from Cons.IH [OF this]
  have "v \<in> snd ` set (dict_store hv (name (entries x)) (vars (entries x))) \<or> (\<exists>x\<in>set xs. v = vars (entries x))" .
  then show ?case
    using values_store [of _ v hv "name (entries x)" "vars (entries x)"] by auto
qed

lemma has_key_assembled:
  "has_key (stored client_hostname client_vars (stored device_hostname device_vars [] xs) ys) k \<longleftrightarrow>
     (\<exists>x\<in>set xs. key_eq (device_hostname (entries x)) k) \<or>
     (\<exists>y\<in>set ys. key_eq (client_hostname (entries y)) k)"
proof -
  have "\<not> has_key [] k" by (simp add: has_key_def)
  then show ?thesis by (simp add: has_key_stored)
qed

lemma listed_name: "h \<in> set (listed name p xs) \<Longrightarrow> \<exists>x\<in>set xs. p (entries x) \<and> h = name (entries x)"
  by (auto simp add: listed_def)

lemma in_listed:
  "h \<in> set (listed name p xs) \<longleftrightarrow> (\<exists>x\<in>set xs. p (entries x) \<and> h = name (entries x))"
  by (auto simp add: listed_def)

lemma entries_PDict: "entries (PDict d) = d"
  by (simp add: entries_def)

lemma device_record_key: "device_record x \<Longrightarrow> key_eq (device_hostname (entries x)) (device_hostname (entries x))"
  by (cases x) (simp_all add: device_record_def entries_def key_eq_refl)

lemma client_record_key: "client_record x \<Longrightarrow> key_eq (client_hostname (entries x)) (client_hostname (entries x))"
  by (cases x) (simp_all add: client_record_def entries_def key_eq_refl)

lemma device_record_PDict: "device_record x \<Longrightarrow> \<exists>d. x = PDict d \<and> hashable (device_hostname d)"
  by (cases x) (simp_all add: device_record_def)

lemma device_vars_entry: "device_entry (device_vars d) \<and> \<not> client_entry (device_vars d)"
  by (simp add: device_entry_def client_entry_def device_vars_def device_keys_def client_keys_def has_key_def)

lemma client_vars_entry: "client_entry (client_vars c) \<and> \<not> device_entry (client_vars c)"
  by (simp add: device_entry_def client_entry_def client_vars_def device_keys_def client_keys_def has_key_def)

section \<open>What \<open>json.dumps\<close> can write\<close>

text \<open>The keys of a dict as \<open>json.dumps\<close> writes them.\<close>

lemma json_dumps_keys:
  "json_dumps (PDict [(PNone, PInt 1), (PBool True, PInt 2), (PStr ''s'', PInt 4), (PInt 7, PInt 5),
      (PInt (- 12), PNone)]) =
   Inr (JObject [(Key ''null'', JInt 1), (Key ''true'', JInt 2), (Key ''s'', JInt 4), (Key ''7'', JInt 5),
      (Key ''-12'', JNull)])"
  "json_dumps (PDict [(PList [], PInt 1)]) = Inl TypeError"
  by (simp_all add: int_text_def nat_text.simps)



















section \<open>When \<open>build_inventory\<close> returns\<close>

text \<open>
  \<open>build_inventory\<close> returns a document exactly when both query results are
  iterable and every element is a dict with a hashable host identifier; the document
  is then \<open>assembled\<close>.
\<close>

lemma process_devices_skeleton:
  "process_devices skeleton devices = Inr doc \<longleftrightarrow>
     (\<exists>xs. py_iter devices = Inr xs \<and> list_all device_record xs \<and>
        doc = document (stored device_hostname device_vars [] xs)
                (listed device_hostname (has_type ''usw'') xs)
                (listed device_hostname (has_type ''uap'') xs)
                (listed device_hostname (has_type ''ugw'') xs) [] [])"
  by (cases "py_iter devices") (simp_all add: process_devices_def skeleton_document for_each_devices)

lemma build_inventory_returns:
  "snd (build_inventory w) = Inr doc \<longleftrightarrow>
     (\<exists>xs ys. py_iter (snd (get_devices w)) = Inr xs \<and> list_all device_record xs \<and>
        py_iter (snd (get_clients w)) = Inr ys \<and> list_all client_record ys \<and>
        doc = assembled xs ys)"
proof (cases "process_devices skeleton (snd (get_devices w))")
  case (Inl e)
  then have "snd (build_inventory w) = Inl e"
    by (cases "get_devices w") (simp add: build_inventory_def)
  moreover from Inl have "\<And>d. process_devices skeleton (snd (get_devices w)) \<noteq> Inr d" by simp
  ultimately show ?thesis
    unfolding process_devices_skeleton by auto
next
  case (Inr d)
  then obtain xs where xs: "py_iter (snd (get_devices w)) = Inr xs" "list_all device_record xs"
    and d: "d = document (stored device_hostname device_vars [] xs)
                (listed device_hostname (has_type ''usw'') xs)
                (listed device_hostname (has_type ''uap'') xs)
                (listed device_hostname (has_type ''ugw'') xs) [] []"
    unfolding process_devices_skeleton by auto
  from Inr have b: "snd (build_inventory w) = process_clients d (snd (get_clients w))"
    by (cases "get_devices w"; cases "get_clients w") (simp add: build_inventory_def)
  show ?thesis
    by (cases "py_iter (snd (get_clients w))")
      (auto simp add: b d xs process_clients_def for_each_clients assembled_def)
qed


lemma inventory_of_records:
  assumes "snd (get_devices w) = PList xs" and "snd (get_clients w) = PList ys"
    and "list_all device_record xs" and "list_all client_record ys"
  shows "snd (build_inventory w) = Inr (assembled xs ys)"
  unfolding build_inventory_returns using assms by (simp add: py_iter_def)

lemma inventory_hostvars_records:
  assumes "snd (get_devices w) = PList xs" and "snd (get_clients w) = PList ys"
    and "list_all device_record xs" and "list_all client_record ys"
  shows "inventory_hostvars w =
    Inr (PDict (stored client_hostname client_vars (stored device_hostname device_vars [] xs) ys))"
  by (simp add: inventory_hostvars_def inventory_of_records [OF assms] assembled_def hostvars_of_document)

lemma inventory_hosts_records:
  assumes "snd (get_devices w) = PList xs" and "snd (get_clients w) = PList ys"
    and "list_all device_record xs" and "list_all client_record ys"
  shows "inventory_hosts w ''switches'' = Inr (PList (listed device_hostname (has_type ''usw'') xs))"
    and "inventory_hosts w ''aps'' = Inr (PList (listed device_hostname (has_type ''uap'') xs))"
    and "inventory_hosts w ''gateways'' = Inr (PList (listed device_hostname (has_type ''ugw'') xs))"
    and "inventory_hosts w ''wired_clients'' =
      Inr (PList (listed client_hostname (\<lambda>c. truthy (is_wired c)) ys))"
    and "inventory_hosts w ''wireless_clients'' =
      Inr (PList (listed client_hostname (\<lambda>c. \<not> truthy (is_wired c)) ys))"
  by (simp_all only: inventory_hosts_def inventory_of_records [OF assms] assembled_def
      hosts_of_document sum.case)

text \<open>
  The entry that the loop writes for a device record is the entry of the returned
  document under the record's identifier, unless a later device or a client derives an
  equal identifier.
\<close>

lemma device_entry_survives:
  assumes "snd (get_devices w) = PList (xs @ PDict d # xs')" and "snd (get_clients w) = PList ys"
    and "list_all device_record (xs @ PDict d # xs')" and "list_all client_record ys"
    and "\<forall>x\<in>set xs'. \<not> key_eq (device_hostname (entries x)) (device_hostname d)"
    and "\<forall>y\<in>set ys. \<not> key_eq (client_hostname (entries y)) (device_hostname d)"
  shows "\<exists>hv. inventory_hostvars w = Inr (PDict hv) \<and>
           dict_lookup hv (device_hostname d) = Some (device_vars d)"
proof -
  from assms(3) have "hashable (device_hostname d)"
    by (simp add: device_record_def)
  then have "key_eq (device_hostname (entries (PDict d))) (device_hostname d)"
    by (simp add: entries_PDict key_eq_refl)
  then have "dict_lookup (stored device_hostname device_vars [] (xs @ PDict d # xs')) (device_hostname d) =
      Some (device_vars (entries (PDict d)))"
    using assms(5) by (rule lookup_stored_last)
  then have "dict_lookup (stored client_hostname client_vars
      (stored device_hostname device_vars [] (xs @ PDict d # xs')) ys) (device_hostname d) =
      Some (device_vars d)"
    using assms(6) by (simp add: lookup_stored_other entries_PDict)
  then show ?thesis
    by (simp add: inventory_hostvars_records [OF assms(1-4)])
qed

section \<open>\<open>run\<close>\<close>

lemma authenticate_fails:
  "\<not> snd (authenticate w) \<longleftrightarrow>
     (\<exists>e. password_decoded w = Inl e) \<or> (\<exists>e. login_response w = Inl e) \<or>
     (\<exists>c. login_response w = Inr c \<and> c \<noteq> 200)"
  by (cases "password_decoded w"; cases "login_response w") (simp_all add: authenticate_def)

lemma run_stdout:
  "stdout (run w) =
     (if snd (authenticate w) then
        (case snd (build_inventory w) of
           Inl e \<Rightarrow> []
         | Inr doc \<Rightarrow> (case json_dumps doc of Inl e \<Rightarrow> [] | Inr text \<Rightarrow> [text]))
      else [])"
  by (cases "authenticate w"; cases "build_inventory w"; cases "snd (build_inventory w)";
      cases "json_dumps (projr (snd (build_inventory w)))")
    (simp_all add: run_def)

lemma run_exit_status:
  "exit_status (run w) =
     (if snd (authenticate w) then
        (case snd (build_inventory w) of
           Inl e \<Rightarrow> 1
         | Inr doc \<Rightarrow> (case json_dumps doc of Inl e \<Rightarrow> 1 | Inr text \<Rightarrow> 0))
      else 1)"
  by (cases "authenticate w"; cases "build_inventory w"; cases "snd (build_inventory w)";
      cases "json_dumps (projr (snd (build_inventory w)))")
    (simp_all add: run_def)


lemma run_stderr_unauthenticated:
  "\<not> snd (authenticate w) \<Longrightarrow>
     stderr (run w) = fst (authenticate w) @ [ExitMessage ''Authentication failed'']"
  by (cases "authenticate w") (simp add: run_def)




section \<open>The example inputs, evaluated\<close>

text \<open>
  A whole run, evaluated from the definitions of the model alone: one switch and one
  wireless client without a host name.
\<close>

lemma example_run:
  "run (controller (PList [PDict sw1]) (PList [PDict laptop])) =
     \<lparr>stdout = [JObject
        [(Key ''_meta'', JObject [(Key ''hostvars'', JObject
           [(Key ''sw1'', JObject
               [(Key ''mac_address'', JStr ''aa:bb''),
                (Key ''ip_address'', JStr ''10.0.0.1''),
                (Key ''model'', JNull),
                (Key ''version'', JNull),
                (Key ''device_type'', JStr ''usw''),
                (Key ''adoption_state'', JInt 1),
                (Key ''unifi_device'', JBool True)]),
            (Key ''cc:dd'', JObject
               [(Key ''mac_address'', JStr ''cc:dd''),
                (Key ''ip_address'', JNull),
                (Key ''hostname'', JNull),
                (Key ''is_wired'', JBool False),
                (Key ''last_seen'', JNull),
                (Key ''unifi_client'', JBool True)])])]),
         (Key ''all'', JObject [(Key ''children'', JArray [JStr ''unifi_devices'', JStr ''unifi_clients''])]),
         (Key ''unifi_devices'',
            JObject [(Key ''children'', JArray [JStr ''switches'', JStr ''aps'', JStr ''gateways''])]),
         (Key ''switches'', JObject [(Key ''hosts'', JArray [JStr ''sw1''])]),
         (Key ''aps'', JObject [(Key ''hosts'', JArray [])]),
         (Key ''gateways'', JObject [(Key ''hosts'', JArray [])]),
         (Key ''unifi_clients'',
            JObject [(Key ''children'', JArray [JStr ''wired_clients'', JStr ''wireless_clients''])]),
         (Key ''wired_clients'', JObject [(Key ''hosts'', JArray [])]),
         (Key ''wireless_clients'', JObject [(Key ''hosts'', JArray [JStr ''cc:dd''])])]],
      stderr = [], exit_status = 0\<rparr>"
  by (simp add: run_def authenticate_def build_inventory_def get_devices_def get_clients_def
      fetch_data_def py_get_def dict_get_def controller_def process_devices_def process_clients_def
      py_iter_def process_device_def process_client_def skeleton_def device_hostname_def
      client_hostname_def device_type_def is_wired_def device_vars_def client_vars_def py_or_def
      getitem_def setitem_def py_append_def sw1_def laptop_def Let_def)

text \<open>The other examples are evaluated through the closed form.\<close>

lemma get_devices_controller: "snd (get_devices (controller ds cs)) = ds"
  by (simp add: get_devices_def fetch_data_def controller_def py_get_def dict_get_def)

lemma get_clients_controller: "snd (get_clients (controller ds cs)) = cs"
  by (simp add: get_clients_def fetch_data_def controller_def py_get_def dict_get_def)

lemma build_inventory_controller:
  "list_all device_record xs \<Longrightarrow> list_all client_record ys \<Longrightarrow>
     snd (build_inventory (controller (PList xs) (PList ys))) = Inr (assembled xs ys)"
  by (simp add: build_inventory_returns get_devices_controller get_clients_controller py_iter_def)

lemmas eval_records =
  device_record_def client_record_def device_hostname_def client_hostname_def device_type_def
  is_wired_def device_vars_def client_vars_def dict_get_def py_or_def entries_def has_type_def

lemmas eval_assembled = assembled_def stored_def listed_def eval_records

lemma example_inventory:
  "snd (build_inventory (controller (PList [PDict sw1]) (PList [PDict laptop]))) =
     Inr (document [(PStr ''sw1'', device_vars sw1), (PStr ''cc:dd'', client_vars laptop)]
            [PStr ''sw1''] [] [] [] [PStr ''cc:dd''])"
  by (subst build_inventory_controller) (simp_all add: eval_assembled sw1_def laptop_def)

lemma example_collision:
  "snd (build_inventory (controller (PList [PDict host1_ap, PDict gw1]) (PList [PDict host1_pc]))) =
   Inr (document [(PStr ''host1'', client_vars host1_pc), (PStr ''gw1'', device_vars gw1)]
     [] [PStr ''host1''] [PStr ''gw1''] [PStr ''host1''] [])"
  by (subst build_inventory_controller) (simp_all add: eval_assembled host1_ap_def gw1_def host1_pc_def)

lemma camera_record: "device_record (PDict camera)"
  by (simp add: eval_records camera_def)

lemma camera_type: "device_type camera = PStr ''uvc''"
  by (simp add: eval_records camera_def)

lemma camera_hostname: "device_hostname camera = PStr ''cam1''"
  by (simp add: eval_records camera_def)

lemma core_usw_eval:
  "device_record (PDict core_usw)" "device_hostname core_usw = PStr ''core''"
  "device_type core_usw = PStr ''usw''"
  by (simp_all add: eval_records core_usw_def)

lemma core_udm_eval:
  "device_record (PDict core_udm)" "device_hostname core_udm = PStr ''core''"
  "device_type core_udm = PStr ''udm''"
  by (simp_all add: eval_records core_udm_def)

lemma host1_eval:
  "device_hostname host1_ap = PStr ''host1''" "device_type host1_ap = PStr ''uap''"
  "device_hostname host1_udm = PStr ''host1''" "device_type host1_udm = PStr ''udm''"
  "client_hostname host1_pc = PStr ''host1''" "is_wired host1_pc = PBool True"
  by (simp_all add: eval_records host1_ap_def host1_udm_def host1_pc_def)

lemma nameless_eval:
  "device_record (PDict nameless_ap)" "client_record (PDict nameless_pc)"
  "\<not> has_key nameless_ap (PStr ''name'')" "\<not> has_key nameless_ap (PStr ''mac'')"
  "\<not> has_key nameless_pc (PStr ''hostname'')" "\<not> has_key nameless_pc (PStr ''mac'')"
  "device_type nameless_ap = PStr ''uap''" "truthy (is_wired nameless_pc)"
  "dict_get nameless_ap ''mac'' PNone = PNone" "dict_get nameless_pc ''mac'' PNone = PNone"
  by (simp_all add: eval_records has_key_def nameless_ap_def nameless_pc_def)

lemma twins_eval:
  "device_hostname sw1 = PStr ''sw1''" "device_hostname sw1_twin = PStr ''sw1''"
  "device_type sw1 = PStr ''usw''" "device_type sw1_twin = PStr ''usw''"
  "client_hostname laptop = PStr ''cc:dd''" "client_hostname laptop_twin = PStr ''cc:dd''"
  "truthy (is_wired laptop) = False" "truthy (is_wired laptop_twin) = False"
  by (simp_all add: eval_records sw1_def sw1_twin_def laptop_def laptop_twin_def)



lemma laptop_eval:
  "client_record (PDict laptop)" "client_hostname laptop = PStr ''cc:dd''" "\<not> truthy (is_wired laptop)"
  "has_key laptop (PStr ''hostname'')" "\<not> truthy (dict_get laptop ''hostname'' PNone)"
  "dict_get laptop ''mac'' PNone = PStr ''cc:dd''"
  by (simp_all add: eval_records has_key_def laptop_def)

lemma anon_sw_eval:
  "device_record (PDict anon_sw)" "device_hostname anon_sw = PStr ''aa:dd''"
  "device_type anon_sw = PStr ''usw''" "\<not> has_key anon_sw (PStr ''name'')"
  "dict_get anon_sw ''mac'' PNone = PStr ''aa:dd''"
  by (simp_all add: eval_records has_key_def anon_sw_def)

section \<open>The claims\<close>

text \<open>
  C1. Whenever \<open>build_inventory\<close> returns a document, each of the five host groups
  has a hosts list, \<open>_meta.hostvars\<close> is a dict, and every host identifier of the list
  is a key of that dict.
\<close>

theorem hosts_have_hostvars:
  assumes "snd (build_inventory w) = Inr doc"
    and "g \<in> set host_groups"
  shows "\<exists>hv hs. hostvars_of doc = Inr (PDict hv) \<and> hosts_of doc g = Inr (PList hs) \<and>
           (\<forall>h\<in>set hs. has_key hv h)"
proof -
  from assms(1) obtain xs ys where
    xs: "list_all device_record xs" and ys: "list_all client_record ys" and
    doc: "doc = assembled xs ys"
    unfolding build_inventory_returns by auto
  have dev: "has_key (stored client_hostname client_vars (stored device_hostname device_vars [] xs) ys) h"
    if "h \<in> set (listed device_hostname p xs)" for h p
  proof -
    from that obtain x where "x \<in> set xs" "h = device_hostname (entries x)"
      by (auto dest: listed_name)
    moreover from this xs have "key_eq h h"
      by (auto simp add: list_all_iff device_record_key)
    ultimately show ?thesis unfolding has_key_assembled by auto
  qed
  have cli: "has_key (stored client_hostname client_vars (stored device_hostname device_vars [] xs) ys) h"
    if "h \<in> set (listed client_hostname p ys)" for h p
  proof -
    from that obtain y where "y \<in> set ys" "h = client_hostname (entries y)"
      by (auto dest: listed_name)
    moreover from this ys have "key_eq h h"
      by (auto simp add: list_all_iff client_record_key)
    ultimately show ?thesis unfolding has_key_assembled by auto
  qed
  have hv: "hostvars_of doc =
      Inr (PDict (stored client_hostname client_vars (stored device_hostname device_vars [] xs) ys))"
    by (simp add: doc assembled_def hostvars_of_document)
  from assms(2) have "g = ''switches'' \<or> g = ''aps'' \<or> g = ''gateways'' \<or>
      g = ''wired_clients'' \<or> g = ''wireless_clients''"
    by (simp add: host_groups_def)
  moreover have "hosts_of doc ''switches'' = Inr (PList (listed device_hostname (has_type ''usw'') xs))"
    by (simp only: doc assembled_def hosts_of_document)
  moreover have "hosts_of doc ''aps'' = Inr (PList (listed device_hostname (has_type ''uap'') xs))"
    by (simp only: doc assembled_def hosts_of_document)
  moreover have "hosts_of doc ''gateways'' = Inr (PList (listed device_hostname (has_type ''ugw'') xs))"
    by (simp only: doc assembled_def hosts_of_document)
  moreover have "hosts_of doc ''wired_clients'' =
      Inr (PList (listed client_hostname (\<lambda>c. truthy (is_wired c)) ys))"
    by (simp only: doc assembled_def hosts_of_document)
  moreover have "hosts_of doc ''wireless_clients'' =
      Inr (PList (listed client_hostname (\<lambda>c. \<not> truthy (is_wired c)) ys))"
    by (simp only: doc assembled_def hosts_of_document)
  ultimately show ?thesis
    using hv dev cli by blast
qed

theorem hosts_have_hostvars_witness:
  "snd (build_inventory (controller (PList [PDict sw1]) (PList [PDict laptop]))) =
     Inr (document [(PStr ''sw1'', device_vars sw1), (PStr ''cc:dd'', client_vars laptop)]
            [PStr ''sw1''] [] [] [] [PStr ''cc:dd'']) \<and>
   ''wireless_clients'' \<in> set host_groups \<and>
   (\<exists>hv hs. hostvars_of (document [(PStr ''sw1'', device_vars sw1), (PStr ''cc:dd'', client_vars laptop)]
            [PStr ''sw1''] [] [] [] [PStr ''cc:dd'']) = Inr (PDict hv) \<and>
      hosts_of (document [(PStr ''sw1'', device_vars sw1), (PStr ''cc:dd'', client_vars laptop)]
            [PStr ''sw1''] [] [] [] [PStr ''cc:dd'']) ''wireless_clients'' = Inr (PList hs) \<and>
      hs = [PStr ''cc:dd''] \<and> has_key hv (PStr ''cc:dd''))"
  using hosts_have_hostvars [OF example_inventory, of "''wireless_clients''"]
  by (simp add: example_inventory host_groups_def hosts_of_document hostvars_of_document)

text \<open>
  C2 (as amended). When the devices are one record and the clients one record and both
  derive the same hashable identifier, the returned \<open>_meta.hostvars\<close> has that
  identifier as its only key, with exactly the client's variables; the identifier is the
  only host of \<open>wired_clients\<close> or of \<open>wireless_clients\<close> and the other list is empty;
  it is the only host of the device list of the device's type when that type is
  \<open>usw\<close>, \<open>uap\<close> or \<open>ugw\<close>, and the three device lists are empty otherwise.
\<close>

theorem collision_client_wins:
  assumes "snd (get_devices w) = PList [PDict d]" and "snd (get_clients w) = PList [PDict c]"
    and "device_hostname d = h" and "client_hostname c = h" and "hashable h"
  shows "inventory_hostvars w = Inr (PDict [(h, client_vars c)]) \<and>
         inventory_hosts w ''wired_clients'' = Inr (PList (if truthy (is_wired c) then [h] else [])) \<and>
         inventory_hosts w ''wireless_clients'' = Inr (PList (if truthy (is_wired c) then [] else [h])) \<and>
         inventory_hosts w ''switches'' = Inr (PList (if device_type d = PStr ''usw'' then [h] else [])) \<and>
         inventory_hosts w ''aps'' = Inr (PList (if device_type d = PStr ''uap'' then [h] else [])) \<and>
         inventory_hosts w ''gateways'' = Inr (PList (if device_type d = PStr ''ugw'' then [h] else []))"
proof -
  have rec: "list_all device_record [PDict d]" "list_all client_record [PDict c]"
    using assms(3-5) by (simp_all add: device_record_def client_record_def)
  note wf = assms(1,2) rec
  have "key_eq h h" using assms(5) by (rule key_eq_refl)
  then have hv: "stored client_hostname client_vars (stored device_hostname device_vars [] [PDict d])
      [PDict c] = [(h, client_vars c)]"
    by (simp add: stored_def entries_def assms(3,4))
  have ls: "listed device_hostname (has_type t) [PDict d] = (if device_type d = PStr t then [h] else [])"
    "listed client_hostname p [PDict c] = (if p c then [h] else [])" for t p
    by (simp_all add: listed_def entries_def has_type_def assms(3,4))
  show ?thesis
    unfolding inventory_hostvars_records [OF wf] inventory_hosts_records [OF wf] hv ls
    by simp
qed

theorem collision_client_wins_witness:
  "snd (get_devices (controller (PList [PDict host1_ap]) (PList [PDict host1_pc]))) = PList [PDict host1_ap] \<and>
   snd (get_clients (controller (PList [PDict host1_ap]) (PList [PDict host1_pc]))) = PList [PDict host1_pc] \<and>
   device_hostname host1_ap = PStr ''host1'' \<and> client_hostname host1_pc = PStr ''host1'' \<and>
   hashable (PStr ''host1'') \<and>
   inventory_hostvars (controller (PList [PDict host1_ap]) (PList [PDict host1_pc])) =
     Inr (PDict [(PStr ''host1'', client_vars host1_pc)]) \<and>
   inventory_hosts (controller (PList [PDict host1_ap]) (PList [PDict host1_pc])) ''wired_clients'' =
     Inr (PList [PStr ''host1'']) \<and>
   inventory_hosts (controller (PList [PDict host1_ap]) (PList [PDict host1_pc])) ''wireless_clients'' =
     Inr (PList []) \<and>
   inventory_hosts (controller (PList [PDict host1_ap]) (PList [PDict host1_pc])) ''switches'' =
     Inr (PList []) \<and>
   inventory_hosts (controller (PList [PDict host1_ap]) (PList [PDict host1_pc])) ''aps'' =
     Inr (PList [PStr ''host1'']) \<and>
   inventory_hosts (controller (PList [PDict host1_ap]) (PList [PDict host1_pc])) ''gateways'' =
     Inr (PList [])"
  using collision_client_wins [OF get_devices_controller get_clients_controller host1_eval(1) host1_eval(5)]
  by (simp add: get_devices_controller get_clients_controller host1_eval)

theorem collision_device_group_counterexample:
  "device_hostname host1_udm = PStr ''host1'' \<and> client_hostname host1_pc = PStr ''host1'' \<and>
   inventory_hostvars (controller (PList [PDict host1_udm]) (PList [PDict host1_pc])) =
     Inr (PDict [(PStr ''host1'', client_vars host1_pc)]) \<and>
   inventory_hosts (controller (PList [PDict host1_udm]) (PList [PDict host1_pc])) ''switches'' =
     Inr (PList []) \<and>
   inventory_hosts (controller (PList [PDict host1_udm]) (PList [PDict host1_pc])) ''aps'' =
     Inr (PList []) \<and>
   inventory_hosts (controller (PList [PDict host1_udm]) (PList [PDict host1_pc])) ''gateways'' =
     Inr (PList [])"
proof -
  have rec: "list_all device_record [PDict host1_udm]" "list_all client_record [PDict host1_pc]"
    by (simp_all add: device_record_def client_record_def host1_eval)
  note wf = get_devices_controller get_clients_controller rec
  have hv: "stored client_hostname client_vars (stored device_hostname device_vars [] [PDict host1_udm])
      [PDict host1_pc] = [(PStr ''host1'', client_vars host1_pc)]"
    by (simp add: stored_def entries_def host1_eval)
  have ls: "listed device_hostname (has_type ''usw'') [PDict host1_udm] = []"
    "listed device_hostname (has_type ''uap'') [PDict host1_udm] = []"
    "listed device_hostname (has_type ''ugw'') [PDict host1_udm] = []"
    by (simp_all add: listed_def entries_def has_type_def host1_eval)
  show ?thesis
    unfolding inventory_hostvars_records [OF wf] inventory_hosts_records [OF wf] hv ls
    by (simp add: host1_eval)
qed

text \<open>
  C3 (as amended). For a device record whose type is none of \<open>usw\<close>, \<open>uap\<close>,
  \<open>ugw\<close>: processing the record, in any state of the document, stores its entry under
  its host identifier and leaves the hosts lists as they are; the returned document has
  the identifier as a key of \<open>_meta.hostvars\<close>, and the identifier is in the switches,
  aps or gateways list only when another device record, whose type is that list's code,
  derives the same identifier.
\<close>

theorem unrecognised_type_not_listed:
  assumes "snd (get_devices w) = PList xs" and "snd (get_clients w) = PList ys"
    and "list_all device_record xs" and "list_all client_record ys"
    and "PDict d \<in> set xs"
    and "device_type d \<notin> {PStr ''usw'', PStr ''uap'', PStr ''ugw''}"
  shows "process_device (document hv0 sw0 ap0 gw0 wi0 wl0) (PDict d) =
           Inr (document (dict_store hv0 (device_hostname d) (device_vars d)) sw0 ap0 gw0 wi0 wl0) \<and>
         (\<exists>hv sw ap gw.
           inventory_hostvars w = Inr (PDict hv) \<and>
           inventory_hosts w ''switches'' = Inr (PList sw) \<and>
           inventory_hosts w ''aps'' = Inr (PList ap) \<and>
           inventory_hosts w ''gateways'' = Inr (PList gw) \<and>
           has_key hv (device_hostname d) \<and>
           (device_hostname d \<in> set sw \<longrightarrow>
              (\<exists>d'. PDict d' \<in> set xs \<and> device_type d' = PStr ''usw'' \<and>
                 device_hostname d' = device_hostname d)) \<and>
           (device_hostname d \<in> set ap \<longrightarrow>
              (\<exists>d'. PDict d' \<in> set xs \<and> device_type d' = PStr ''uap'' \<and>
                 device_hostname d' = device_hostname d)) \<and>
           (device_hostname d \<in> set gw \<longrightarrow>
              (\<exists>d'. PDict d' \<in> set xs \<and> device_type d' = PStr ''ugw'' \<and>
                 device_hostname d' = device_hostname d)))"
proof -
  note wf = assms(1-4)
  from assms(3,5) have rec: "device_record (PDict d)" by (simp add: list_all_iff)
  have step: "process_device (document hv0 sw0 ap0 gw0 wi0 wl0) (PDict d) =
      Inr (document (dict_store hv0 (device_hostname d) (device_vars d)) sw0 ap0 gw0 wi0 wl0)"
    using assms(6) by (simp add: process_device_document rec entries_PDict listed_def has_type_def)
  have key: "has_key (stored client_hostname client_vars (stored device_hostname device_vars [] xs) ys)
      (device_hostname d)"
  proof -
    from rec have "key_eq (device_hostname (entries (PDict d))) (device_hostname d)"
      using device_record_key [of "PDict d"] by (simp add: entries_PDict)
    with assms(5) show ?thesis unfolding has_key_assembled by blast
  qed
  have other: "\<exists>d'. PDict d' \<in> set xs \<and> device_type d' = PStr t \<and> device_hostname d' = h"
    if "h \<in> set (listed device_hostname (has_type t) xs)" for h t
  proof -
    from that obtain x where x: "x \<in> set xs" "has_type t (entries x)" "h = device_hostname (entries x)"
      unfolding in_listed by blast
    from x(1) assms(3) have "device_record x" by (simp add: list_all_iff)
    then obtain d' where "x = PDict d'" using device_record_PDict by blast
    with x show ?thesis by (auto simp add: entries_PDict has_type_def)
  qed
  have sw: "device_hostname d \<in> set (listed device_hostname (has_type ''usw'') xs) \<longrightarrow>
      (\<exists>d'. PDict d' \<in> set xs \<and> device_type d' = PStr ''usw'' \<and>
         device_hostname d' = device_hostname d)"
    using other by (rule impI)
  have ap: "device_hostname d \<in> set (listed device_hostname (has_type ''uap'') xs) \<longrightarrow>
      (\<exists>d'. PDict d' \<in> set xs \<and> device_type d' = PStr ''uap'' \<and>
         device_hostname d' = device_hostname d)"
    using other by (rule impI)
  have gw: "device_hostname d \<in> set (listed device_hostname (has_type ''ugw'') xs) \<longrightarrow>
      (\<exists>d'. PDict d' \<in> set xs \<and> device_type d' = PStr ''ugw'' \<and>
         device_hostname d' = device_hostname d)"
    using other by (rule impI)
  show ?thesis
    by (intro exI conjI)
      (rule step inventory_hostvars_records [OF wf] inventory_hosts_records [OF wf] key sw ap gw)+
qed

theorem unrecognised_type_not_listed_witness:
  "snd (get_devices (controller (PList [PDict camera]) (PList []))) = PList [PDict camera] \<and>
   snd (get_clients (controller (PList [PDict camera]) (PList []))) = PList [] \<and>
   list_all device_record [PDict camera] \<and> list_all client_record [] \<and>
   PDict camera \<in> set [PDict camera] \<and>
   device_type camera \<notin> {PStr ''usw'', PStr ''uap'', PStr ''ugw''} \<and>
   process_device skeleton (PDict camera) =
     Inr (document [(PStr ''cam1'', device_vars camera)] [] [] [] [] []) \<and>
   inventory_hostvars (controller (PList [PDict camera]) (PList [])) =
     Inr (PDict [(PStr ''cam1'', device_vars camera)]) \<and>
   inventory_hosts (controller (PList [PDict camera]) (PList [])) ''switches'' = Inr (PList []) \<and>
   inventory_hosts (controller (PList [PDict camera]) (PList [])) ''aps'' = Inr (PList []) \<and>
   inventory_hosts (controller (PList [PDict camera]) (PList [])) ''gateways'' = Inr (PList []) \<and>
   has_key [(PStr ''cam1'', device_vars camera)] (device_hostname camera)"
proof -
  have rec: "list_all device_record [PDict camera]" "list_all client_record []"
    by (simp_all add: camera_record)
  have ty: "device_type camera \<notin> {PStr ''usw'', PStr ''uap'', PStr ''ugw''}"
    by (simp add: camera_type)
  note wf = get_devices_controller get_clients_controller rec
  have hv: "stored client_hostname client_vars
      (stored device_hostname device_vars [] [PDict camera]) [] = [(PStr ''cam1'', device_vars camera)]"
    by (simp add: stored_def entries_def camera_hostname)
  have ls: "listed device_hostname (has_type ''usw'') [PDict camera] = []"
    "listed device_hostname (has_type ''uap'') [PDict camera] = []"
    "listed device_hostname (has_type ''ugw'') [PDict camera] = []"
    by (simp_all add: listed_def entries_def has_type_def camera_type)
  note inst = unrecognised_type_not_listed [OF wf _ ty, of "[]" "[]" "[]" "[]" "[]" "[]"]
  from inst have step: "process_device skeleton (PDict camera) =
      Inr (document [(PStr ''cam1'', device_vars camera)] [] [] [] [] [])"
    by (simp add: skeleton_document camera_hostname)
  from inst have key: "has_key [(PStr ''cam1'', device_vars camera)] (device_hostname camera)"
    by (simp add: inventory_hostvars_records [OF wf] inventory_hosts_records [OF wf] hv)
  show ?thesis
    using step key
    by (simp add: get_devices_controller get_clients_controller camera_record camera_type hv ls
        inventory_hostvars_records [OF wf] inventory_hosts_records [OF wf])
qed

theorem unrecognised_type_listed_counterexample:
  "device_type core_udm \<notin> {PStr ''usw'', PStr ''uap'', PStr ''ugw''} \<and>
   device_hostname core_udm = PStr ''core'' \<and>
   inventory_hosts (controller (PList [PDict core_usw, PDict core_udm]) (PList [])) ''switches'' =
     Inr (PList [PStr ''core''])"
proof -
  have rec: "list_all device_record [PDict core_usw, PDict core_udm]" "list_all client_record []"
    by (simp_all add: core_usw_eval core_udm_eval)
  have "listed device_hostname (has_type ''usw'') [PDict core_usw, PDict core_udm] = [PStr ''core'']"
    by (simp add: listed_def entries_def has_type_def core_usw_eval core_udm_eval)
  then show ?thesis
    by (simp add: core_udm_eval
        inventory_hosts_records [OF get_devices_controller get_clients_controller rec])
qed

text \<open>
  C4. The host identifier of a device record is its \<open>name\<close> field when that is true, and
  otherwise the value of its \<open>mac\<close> field (\<open>None\<close> when there is none): so it is for a
  record without a \<open>name\<close> field, and for one whose \<open>name\<close> is \<open>null\<close> or empty. The
  same holds of a client record with \<open>hostname\<close>. The identifier of every record, \<open>None\<close>
  included, is a key of \<open>_meta.hostvars\<close> of the returned document and a host of the
  list the record belongs to: the list of the device's type when that is \<open>usw\<close>,
  \<open>uap\<close> or \<open>ugw\<close>, and \<open>wired_clients\<close> or \<open>wireless_clients\<close> for a client.
\<close>

theorem missing_identifier_falls_back:
  assumes "snd (get_devices w) = PList xs" and "snd (get_clients w) = PList ys"
    and "list_all device_record xs" and "list_all client_record ys"
  shows "(\<not> has_key d (PStr ''name'') \<longrightarrow> device_hostname d = dict_get d ''mac'' PNone) \<and>
         (\<not> has_key c (PStr ''hostname'') \<longrightarrow> client_hostname c = dict_get c ''mac'' PNone) \<and>
         (\<not> truthy (dict_get d ''name'' PNone) \<longrightarrow> device_hostname d = dict_get d ''mac'' PNone) \<and>
         (\<not> truthy (dict_get c ''hostname'' PNone) \<longrightarrow> client_hostname c = dict_get c ''mac'' PNone) \<and>
         (truthy (dict_get d ''name'' PNone) \<longrightarrow> device_hostname d = dict_get d ''name'' PNone) \<and>
         (truthy (dict_get c ''hostname'' PNone) \<longrightarrow> client_hostname c = dict_get c ''hostname'' PNone) \<and>
         (PDict d \<in> set xs \<longrightarrow>
            hostvars_key w (device_hostname d) \<and>
            (device_type d = PStr ''usw'' \<longrightarrow> listed_in w ''switches'' (device_hostname d)) \<and>
            (device_type d = PStr ''uap'' \<longrightarrow> listed_in w ''aps'' (device_hostname d)) \<and>
            (device_type d = PStr ''ugw'' \<longrightarrow> listed_in w ''gateways'' (device_hostname d))) \<and>
         (PDict c \<in> set ys \<longrightarrow>
            hostvars_key w (client_hostname c) \<and>
            (truthy (is_wired c) \<longrightarrow> listed_in w ''wired_clients'' (client_hostname c)) \<and>
            (\<not> truthy (is_wired c) \<longrightarrow> listed_in w ''wireless_clients'' (client_hostname c))) \<and>
         (PDict d \<in> set xs \<and> \<not> has_key d (PStr ''name'') \<and> \<not> has_key d (PStr ''mac'') \<longrightarrow>
            device_hostname d = PNone \<and> hostvars_key w PNone \<and>
            (device_type d = PStr ''usw'' \<longrightarrow> listed_in w ''switches'' PNone) \<and>
            (device_type d = PStr ''uap'' \<longrightarrow> listed_in w ''aps'' PNone) \<and>
            (device_type d = PStr ''ugw'' \<longrightarrow> listed_in w ''gateways'' PNone)) \<and>
         (PDict c \<in> set ys \<and> \<not> has_key c (PStr ''hostname'') \<and> \<not> has_key c (PStr ''mac'') \<longrightarrow>
            client_hostname c = PNone \<and> hostvars_key w PNone \<and>
            (truthy (is_wired c) \<longrightarrow> listed_in w ''wired_clients'' PNone) \<and>
            (\<not> truthy (is_wired c) \<longrightarrow> listed_in w ''wireless_clients'' PNone))"
proof -
  note wf = assms
  have dmiss: "\<not> truthy (dict_get d ''name'' PNone)" if "\<not> has_key d (PStr ''name'')"
    using that by (simp add: dict_get_def has_key_def)
  have cmiss: "\<not> truthy (dict_get c ''hostname'' PNone)" if "\<not> has_key c (PStr ''hostname'')"
    using that by (simp add: dict_get_def has_key_def)
  have dfalse: "device_hostname d = dict_get d ''mac'' PNone" if "\<not> truthy (dict_get d ''name'' PNone)"
    using that by (simp add: device_hostname_def py_or_def)
  have cfalse: "client_hostname c = dict_get c ''mac'' PNone" if "\<not> truthy (dict_get c ''hostname'' PNone)"
    using that by (simp add: client_hostname_def py_or_def)
  have dtrue: "device_hostname d = dict_get d ''name'' PNone" if "truthy (dict_get d ''name'' PNone)"
    using that by (simp add: device_hostname_def py_or_def)
  have ctrue: "client_hostname c = dict_get c ''hostname'' PNone" if "truthy (dict_get c ''hostname'' PNone)"
    using that by (simp add: client_hostname_def py_or_def)
  have dname: "device_hostname d = dict_get d ''mac'' PNone" if "\<not> has_key d (PStr ''name'')"
    using dfalse dmiss that by blast
  have cname: "client_hostname c = dict_get c ''mac'' PNone" if "\<not> has_key c (PStr ''hostname'')"
    using cfalse cmiss that by blast
  have dnone: "device_hostname d = PNone"
    if "\<not> has_key d (PStr ''name'')" "\<not> has_key d (PStr ''mac'')"
    using that by (simp add: device_hostname_def py_or_def dict_get_def has_key_def)
  have cnone: "client_hostname c = PNone"
    if "\<not> has_key c (PStr ''hostname'')" "\<not> has_key c (PStr ''mac'')"
    using that by (simp add: client_hostname_def py_or_def dict_get_def has_key_def)
  have dkey: "hostvars_key w (device_hostname d)" if "PDict d \<in> set xs"
  proof -
    from that assms(3) have "device_record (PDict d)" by (simp add: list_all_iff)
    then have "key_eq (device_hostname (entries (PDict d))) (device_hostname d)"
      using device_record_key [of "PDict d"] by (simp add: entries_PDict)
    with that have "has_key (stored client_hostname client_vars
        (stored device_hostname device_vars [] xs) ys) (device_hostname d)"
      unfolding has_key_assembled by blast
    then show ?thesis
      by (simp add: hostvars_key_def inventory_hostvars_records [OF wf])
  qed
  have ckey: "hostvars_key w (client_hostname c)" if "PDict c \<in> set ys"
  proof -
    from that assms(4) have "client_record (PDict c)" by (simp add: list_all_iff)
    then have "key_eq (client_hostname (entries (PDict c))) (client_hostname c)"
      using client_record_key [of "PDict c"] by (simp add: entries_PDict)
    with that have "has_key (stored client_hostname client_vars
        (stored device_hostname device_vars [] xs) ys) (client_hostname c)"
      unfolding has_key_assembled by blast
    then show ?thesis
      by (simp add: hostvars_key_def inventory_hostvars_records [OF wf])
  qed
  have dlist: "device_hostname d \<in> set (listed device_hostname (has_type t) xs)"
    if "PDict d \<in> set xs" "device_type d = PStr t" for t
  proof -
    have "has_type t (entries (PDict d)) \<and> device_hostname d = device_hostname (entries (PDict d))"
      by (simp add: entries_PDict has_type_def that)
    with that(1) show ?thesis unfolding in_listed by blast
  qed
  have clist: "client_hostname c \<in> set (listed client_hostname p ys)"
    if "PDict c \<in> set ys" "p c" for p
  proof -
    have "p (entries (PDict c)) \<and> client_hostname c = client_hostname (entries (PDict c))"
      by (simp add: entries_PDict that)
    with that(1) show ?thesis unfolding in_listed by blast
  qed
  have sw: "listed_in w ''switches'' (device_hostname d)"
    if "PDict d \<in> set xs" "device_type d = PStr ''usw''"
    using dlist [OF that] by (simp add: listed_in_def inventory_hosts_records [OF wf])
  have ap: "listed_in w ''aps'' (device_hostname d)"
    if "PDict d \<in> set xs" "device_type d = PStr ''uap''"
    using dlist [OF that] by (simp add: listed_in_def inventory_hosts_records [OF wf])
  have gw: "listed_in w ''gateways'' (device_hostname d)"
    if "PDict d \<in> set xs" "device_type d = PStr ''ugw''"
    using dlist [OF that] by (simp add: listed_in_def inventory_hosts_records [OF wf])
  have wi: "listed_in w ''wired_clients'' (client_hostname c)"
    if "PDict c \<in> set ys" "truthy (is_wired c)"
    using clist [of "\<lambda>c. truthy (is_wired c)", OF that]
    by (simp add: listed_in_def inventory_hosts_records [OF wf])
  have wl: "listed_in w ''wireless_clients'' (client_hostname c)"
    if "PDict c \<in> set ys" "\<not> truthy (is_wired c)"
    using clist [of "\<lambda>c. \<not> truthy (is_wired c)", OF that]
    by (simp add: listed_in_def inventory_hosts_records [OF wf])
  have dall: "PDict d \<in> set xs \<longrightarrow>
      hostvars_key w (device_hostname d) \<and>
      (device_type d = PStr ''usw'' \<longrightarrow> listed_in w ''switches'' (device_hostname d)) \<and>
      (device_type d = PStr ''uap'' \<longrightarrow> listed_in w ''aps'' (device_hostname d)) \<and>
      (device_type d = PStr ''ugw'' \<longrightarrow> listed_in w ''gateways'' (device_hostname d))"
    using dkey sw ap gw by blast
  have call: "PDict c \<in> set ys \<longrightarrow>
      hostvars_key w (client_hostname c) \<and>
      (truthy (is_wired c) \<longrightarrow> listed_in w ''wired_clients'' (client_hostname c)) \<and>
      (\<not> truthy (is_wired c) \<longrightarrow> listed_in w ''wireless_clients'' (client_hostname c))"
    using ckey wi wl by blast
  have dabsent: "PDict d \<in> set xs \<and> \<not> has_key d (PStr ''name'') \<and> \<not> has_key d (PStr ''mac'') \<longrightarrow>
      device_hostname d = PNone \<and> hostvars_key w PNone \<and>
      (device_type d = PStr ''usw'' \<longrightarrow> listed_in w ''switches'' PNone) \<and>
      (device_type d = PStr ''uap'' \<longrightarrow> listed_in w ''aps'' PNone) \<and>
      (device_type d = PStr ''ugw'' \<longrightarrow> listed_in w ''gateways'' PNone)"
    using dall dnone by metis
  have cabsent: "PDict c \<in> set ys \<and> \<not> has_key c (PStr ''hostname'') \<and> \<not> has_key c (PStr ''mac'') \<longrightarrow>
      client_hostname c = PNone \<and> hostvars_key w PNone \<and>
      (truthy (is_wired c) \<longrightarrow> listed_in w ''wired_clients'' PNone) \<and>
      (\<not> truthy (is_wired c) \<longrightarrow> listed_in w ''wireless_clients'' PNone)"
    using call cnone by metis
  show ?thesis
    using dname cname dfalse cfalse dtrue ctrue dall call dabsent cabsent by blast
qed

theorem missing_identifier_falls_back_witness:
  "snd (get_devices (controller (PList [PDict anon_sw, PDict nameless_ap])
       (PList [PDict laptop, PDict nameless_pc]))) = PList [PDict anon_sw, PDict nameless_ap] \<and>
   snd (get_clients (controller (PList [PDict anon_sw, PDict nameless_ap])
       (PList [PDict laptop, PDict nameless_pc]))) = PList [PDict laptop, PDict nameless_pc] \<and>
   list_all device_record [PDict anon_sw, PDict nameless_ap] \<and>
   list_all client_record [PDict laptop, PDict nameless_pc] \<and>
   \<not> has_key anon_sw (PStr ''name'') \<and> device_type anon_sw = PStr ''usw'' \<and>
   device_hostname anon_sw = PStr ''aa:dd'' \<and>
   hostvars_key (controller (PList [PDict anon_sw, PDict nameless_ap])
       (PList [PDict laptop, PDict nameless_pc])) (PStr ''aa:dd'') \<and>
   listed_in (controller (PList [PDict anon_sw, PDict nameless_ap])
       (PList [PDict laptop, PDict nameless_pc])) ''switches'' (PStr ''aa:dd'') \<and>
   has_key laptop (PStr ''hostname'') \<and> \<not> truthy (dict_get laptop ''hostname'' PNone) \<and>
   \<not> truthy (is_wired laptop) \<and>
   client_hostname laptop = PStr ''cc:dd'' \<and>
   hostvars_key (controller (PList [PDict anon_sw, PDict nameless_ap])
       (PList [PDict laptop, PDict nameless_pc])) (PStr ''cc:dd'') \<and>
   listed_in (controller (PList [PDict anon_sw, PDict nameless_ap])
       (PList [PDict laptop, PDict nameless_pc])) ''wireless_clients'' (PStr ''cc:dd'') \<and>
   \<not> has_key nameless_ap (PStr ''name'') \<and> \<not> has_key nameless_ap (PStr ''mac'') \<and>
   device_type nameless_ap = PStr ''uap'' \<and>
   \<not> has_key nameless_pc (PStr ''hostname'') \<and> \<not> has_key nameless_pc (PStr ''mac'') \<and>
   truthy (is_wired nameless_pc) \<and>
   device_hostname nameless_ap = PNone \<and> client_hostname nameless_pc = PNone \<and>
   hostvars_key (controller (PList [PDict anon_sw, PDict nameless_ap])
       (PList [PDict laptop, PDict nameless_pc])) PNone \<and>
   listed_in (controller (PList [PDict anon_sw, PDict nameless_ap])
       (PList [PDict laptop, PDict nameless_pc])) ''aps'' PNone \<and>
   listed_in (controller (PList [PDict anon_sw, PDict nameless_ap])
       (PList [PDict laptop, PDict nameless_pc])) ''wired_clients'' PNone"
proof -
  have rec: "list_all device_record [PDict anon_sw, PDict nameless_ap]"
    "list_all client_record [PDict laptop, PDict nameless_pc]"
    by (simp_all add: nameless_eval laptop_eval anon_sw_eval)
  note inst = missing_identifier_falls_back [OF get_devices_controller get_clients_controller rec]
  show ?thesis
    using inst [of anon_sw laptop] inst [of nameless_ap nameless_pc]
    by (simp add: get_devices_controller get_clients_controller nameless_eval laptop_eval anon_sw_eval)
qed



text \<open>
  C6. When both queries return the empty list, \<open>build_inventory\<close> returns a document
  whose top-level keys are exactly the nine fixed keys, whose \<open>_meta.hostvars\<close> is the
  empty dict and whose five hosts lists are empty.
\<close>

theorem empty_inventory:
  assumes "snd (get_devices w) = PList []" and "snd (get_clients w) = PList []"
  shows "\<exists>items. snd (build_inventory w) = Inr (PDict items) \<and>
           map fst items =
             [PStr ''_meta'', PStr ''all'', PStr ''unifi_devices'', PStr ''switches'', PStr ''aps'',
              PStr ''gateways'', PStr ''unifi_clients'', PStr ''wired_clients'', PStr ''wireless_clients''] \<and>
           hostvars_of (PDict items) = Inr (PDict []) \<and>
           (\<forall>g\<in>set host_groups. hosts_of (PDict items) g = Inr (PList []))"
proof -
  have "snd (build_inventory w) = Inr (assembled [] [])"
    unfolding build_inventory_returns by (simp add: assms py_iter_def)
  moreover have "assembled [] [] = document [] [] [] [] [] []"
    by (simp add: assembled_def stored_def listed_def)
  moreover have "\<forall>g\<in>set host_groups. hosts_of (document [] [] [] [] [] []) g = Inr (PList [])"
    by (simp add: host_groups_def hosts_of_document)
  moreover have "hostvars_of (document [] [] [] [] [] []) = Inr (PDict [])"
    by (simp add: hostvars_of_document)
  ultimately show ?thesis
    by (simp add: document_def)
qed

theorem empty_inventory_witness:
  "snd (get_devices (controller (PList []) (PList []))) = PList [] \<and>
   snd (get_clients (controller (PList []) (PList []))) = PList [] \<and>
   snd (build_inventory (controller (PList []) (PList []))) = Inr skeleton \<and>
   hostvars_of skeleton = Inr (PDict []) \<and>
   hosts_of skeleton ''switches'' = Inr (PList []) \<and>
   hosts_of skeleton ''aps'' = Inr (PList []) \<and>
   hosts_of skeleton ''gateways'' = Inr (PList []) \<and>
   hosts_of skeleton ''wired_clients'' = Inr (PList []) \<and>
   hosts_of skeleton ''wireless_clients'' = Inr (PList [])"
  using empty_inventory [of "controller (PList []) (PList [])"]
  by (simp add: get_devices_controller get_clients_controller skeleton_document
      build_inventory_controller assembled_def stored_def listed_def hosts_of_document hostvars_of_document)

text \<open>
  C7. Processing a device record whose identifier is hashable, in any state of the
  document, stores under the identifier the dict of the record's \<open>mac\<close>, \<open>ip\<close>,
  \<open>model\<close> and \<open>version\<close> fields (\<open>None\<close> when missing), its \<open>type\<close> field
  (\<open>unknown\<close> when missing), its \<open>state\<close> field (\<open>1\<close> when missing) and
  \<open>unifi_device\<close> true; and that dict is the entry of the returned document under the
  identifier when no later device and no client derives an equal identifier.
\<close>

theorem device_entry_written:
  assumes "hashable (device_hostname d)"
  shows "(\<exists>doc' hv'.
           process_device (document hv0 sw0 ap0 gw0 wi0 wl0) (PDict d) = Inr doc' \<and>
           hostvars_of doc' = Inr (PDict hv') \<and>
           dict_lookup hv' (device_hostname d) = Some (PDict
             [(PStr ''mac_address'', dict_get d ''mac'' PNone),
              (PStr ''ip_address'', dict_get d ''ip'' PNone),
              (PStr ''model'', dict_get d ''model'' PNone),
              (PStr ''version'', dict_get d ''version'' PNone),
              (PStr ''device_type'', dict_get d ''type'' (PStr ''unknown'')),
              (PStr ''adoption_state'',
                 (case dict_lookup d (PStr ''state'') of None \<Rightarrow> PInt 1 | Some s \<Rightarrow> s)),
              (PStr ''unifi_device'', PBool True)])) \<and>
         (snd (get_devices w) = PList (xs @ PDict d # xs') \<and> snd (get_clients w) = PList ys \<and>
          list_all device_record (xs @ PDict d # xs') \<and> list_all client_record ys \<and>
          (\<forall>x\<in>set xs'. \<not> key_eq (device_hostname (entries x)) (device_hostname d)) \<and>
          (\<forall>y\<in>set ys. \<not> key_eq (client_hostname (entries y)) (device_hostname d)) \<longrightarrow>
          (\<exists>hv. inventory_hostvars w = Inr (PDict hv) \<and>
             dict_lookup hv (device_hostname d) = Some (PDict
               [(PStr ''mac_address'', dict_get d ''mac'' PNone),
                (PStr ''ip_address'', dict_get d ''ip'' PNone),
                (PStr ''model'', dict_get d ''model'' PNone),
                (PStr ''version'', dict_get d ''version'' PNone),
                (PStr ''device_type'', dict_get d ''type'' (PStr ''unknown'')),
                (PStr ''adoption_state'',
                   (case dict_lookup d (PStr ''state'') of None \<Rightarrow> PInt 1 | Some s \<Rightarrow> s)),
                (PStr ''unifi_device'', PBool True)])))"
proof -
  have rec: "device_record (PDict d)"
    using assms by (simp add: device_record_def)
  have "key_eq (device_hostname d) (device_hostname d)"
    using assms by (rule key_eq_refl)
  then have look: "dict_lookup (dict_store hv0 (device_hostname d) (device_vars d)) (device_hostname d) =
      Some (device_vars d)"
    by (simp add: lookup_store)
  have vars: "PDict
             [(PStr ''mac_address'', dict_get d ''mac'' PNone),
              (PStr ''ip_address'', dict_get d ''ip'' PNone),
              (PStr ''model'', dict_get d ''model'' PNone),
              (PStr ''version'', dict_get d ''version'' PNone),
              (PStr ''device_type'', dict_get d ''type'' (PStr ''unknown'')),
              (PStr ''adoption_state'',
                 (case dict_lookup d (PStr ''state'') of None \<Rightarrow> PInt 1 | Some s \<Rightarrow> s)),
              (PStr ''unifi_device'', PBool True)] = device_vars d"
    by (simp add: device_vars_def device_type_def dict_get_def)
  have step: "\<exists>doc' hv'.
      process_device (document hv0 sw0 ap0 gw0 wi0 wl0) (PDict d) = Inr doc' \<and>
      hostvars_of doc' = Inr (PDict hv') \<and>
      dict_lookup hv' (device_hostname d) = Some (device_vars d)"
    using look by (simp add: process_device_document rec entries_PDict hostvars_of_document)
  have whole: "snd (get_devices w) = PList (xs @ PDict d # xs') \<and> snd (get_clients w) = PList ys \<and>
      list_all device_record (xs @ PDict d # xs') \<and> list_all client_record ys \<and>
      (\<forall>x\<in>set xs'. \<not> key_eq (device_hostname (entries x)) (device_hostname d)) \<and>
      (\<forall>y\<in>set ys. \<not> key_eq (client_hostname (entries y)) (device_hostname d)) \<longrightarrow>
      (\<exists>hv. inventory_hostvars w = Inr (PDict hv) \<and>
      dict_lookup hv (device_hostname d) = Some (device_vars d))"
    using device_entry_survives [of w xs d xs' ys] by (intro impI) (elim conjE)
  show ?thesis
    unfolding vars using step whole by (rule conjI)
qed

theorem device_entry_written_witness:
  "hashable (device_hostname sw1) \<and>
   snd (get_devices (controller (PList [PDict sw1]) (PList [PDict laptop]))) = PList [PDict sw1] \<and>
   snd (get_clients (controller (PList [PDict sw1]) (PList [PDict laptop]))) = PList [PDict laptop] \<and>
   list_all device_record [PDict sw1] \<and> list_all client_record [PDict laptop] \<and>
   \<not> key_eq (client_hostname (entries (PDict laptop))) (device_hostname sw1) \<and>
   (\<exists>doc' hv'.
      process_device skeleton (PDict sw1) = Inr doc' \<and>
      hostvars_of doc' = Inr (PDict hv') \<and>
      dict_lookup hv' (PStr ''sw1'') = Some (PDict
        [(PStr ''mac_address'', PStr ''aa:bb''),
         (PStr ''ip_address'', PStr ''10.0.0.1''),
         (PStr ''model'', PNone),
         (PStr ''version'', PNone),
         (PStr ''device_type'', PStr ''usw''),
         (PStr ''adoption_state'', PInt 1),
         (PStr ''unifi_device'', PBool True)])) \<and>
   (\<exists>hv. inventory_hostvars (controller (PList [PDict sw1]) (PList [PDict laptop])) = Inr (PDict hv) \<and>
      dict_lookup hv (PStr ''sw1'') = Some (PDict
        [(PStr ''mac_address'', PStr ''aa:bb''),
         (PStr ''ip_address'', PStr ''10.0.0.1''),
         (PStr ''model'', PNone),
         (PStr ''version'', PNone),
         (PStr ''device_type'', PStr ''usw''),
         (PStr ''adoption_state'', PInt 1),
         (PStr ''unifi_device'', PBool True)]))"
proof -
  have h: "device_hostname sw1 = PStr ''sw1''"
    by (simp add: device_hostname_def dict_get_def py_or_def sw1_def)
  have hh: "hashable (device_hostname sw1)"
    by (simp add: h)
  have f: "dict_get sw1 ''mac'' PNone = PStr ''aa:bb''" "dict_get sw1 ''ip'' PNone = PStr ''10.0.0.1''"
    "dict_get sw1 ''model'' PNone = PNone" "dict_get sw1 ''version'' PNone = PNone"
    "dict_get sw1 ''type'' (PStr ''unknown'') = PStr ''usw''" "dict_lookup sw1 (PStr ''state'') = None"
    by (simp_all add: dict_get_def sw1_def)
  have rec: "device_record (PDict sw1)"
    by (simp add: device_record_def h)
  show ?thesis
    using device_entry_written [OF hh, of "[]" "[]" "[]" "[]" "[]" "[]"
        "controller (PList [PDict sw1]) (PList [PDict laptop])" "[]" "[]" "[PDict laptop]"]
    by (simp add: h f skeleton_document get_devices_controller get_clients_controller rec
        laptop_eval entries_PDict)
qed

text \<open>
  C8. Hosts lists are not deduplicated: when the devices are two records with the same
  hashable identifier and the same type, and that type is \<open>usw\<close>, \<open>uap\<close> or
  \<open>ugw\<close>, the hosts list of that type holds the identifier twice; when the clients are
  two records with the same hashable identifier that are both wired or both wireless,
  the hosts list of their kind holds the identifier twice.
\<close>

theorem no_deduplication:
  assumes "snd (get_devices w) = PList [PDict d1, PDict d2]"
    and "snd (get_clients w) = PList [PDict c1, PDict c2]"
    and "device_hostname d1 = h" and "device_hostname d2 = h" and "hashable h"
    and "device_type d1 = device_type d2"
    and "client_hostname c1 = k" and "client_hostname c2 = k" and "hashable k"
    and "truthy (is_wired c1) = truthy (is_wired c2)"
  shows "(device_type d1 = PStr ''usw'' \<longrightarrow> inventory_hosts w ''switches'' = Inr (PList [h, h])) \<and>
         (device_type d1 = PStr ''uap'' \<longrightarrow> inventory_hosts w ''aps'' = Inr (PList [h, h])) \<and>
         (device_type d1 = PStr ''ugw'' \<longrightarrow> inventory_hosts w ''gateways'' = Inr (PList [h, h])) \<and>
         (truthy (is_wired c1) \<longrightarrow> inventory_hosts w ''wired_clients'' = Inr (PList [k, k])) \<and>
         (\<not> truthy (is_wired c1) \<longrightarrow> inventory_hosts w ''wireless_clients'' = Inr (PList [k, k]))"
proof -
  have rec: "list_all device_record [PDict d1, PDict d2]" "list_all client_record [PDict c1, PDict c2]"
    using assms(3-5,7-9) by (simp_all add: device_record_def client_record_def)
  note wf = assms(1,2) rec
  have ds: "listed device_hostname (has_type t) [PDict d1, PDict d2] =
      (if device_type d1 = PStr t then [h, h] else [])" for t
    using assms(3,4,6) by (simp add: listed_def entries_def has_type_def)
  have cs: "listed client_hostname (\<lambda>c. truthy (is_wired c)) [PDict c1, PDict c2] =
      (if truthy (is_wired c1) then [k, k] else [])"
    "listed client_hostname (\<lambda>c. \<not> truthy (is_wired c)) [PDict c1, PDict c2] =
      (if truthy (is_wired c1) then [] else [k, k])"
    using assms(7,8,10) by (simp_all add: listed_def entries_def)
  show ?thesis
    unfolding inventory_hosts_records [OF wf] ds cs by simp
qed

theorem no_deduplication_witness:
  "snd (get_devices (controller (PList [PDict sw1, PDict sw1_twin]) (PList [PDict laptop, PDict laptop_twin]))) =
     PList [PDict sw1, PDict sw1_twin] \<and>
   snd (get_clients (controller (PList [PDict sw1, PDict sw1_twin]) (PList [PDict laptop, PDict laptop_twin]))) =
     PList [PDict laptop, PDict laptop_twin] \<and>
   device_hostname sw1 = PStr ''sw1'' \<and> device_hostname sw1_twin = PStr ''sw1'' \<and>
   hashable (PStr ''sw1'') \<and> device_type sw1 = device_type sw1_twin \<and>
   client_hostname laptop = PStr ''cc:dd'' \<and> client_hostname laptop_twin = PStr ''cc:dd'' \<and>
   hashable (PStr ''cc:dd'') \<and> truthy (is_wired laptop) = truthy (is_wired laptop_twin) \<and>
   device_type sw1 = PStr ''usw'' \<and> \<not> truthy (is_wired laptop) \<and>
   inventory_hosts (controller (PList [PDict sw1, PDict sw1_twin]) (PList [PDict laptop, PDict laptop_twin]))
     ''switches'' = Inr (PList [PStr ''sw1'', PStr ''sw1'']) \<and>
   inventory_hosts (controller (PList [PDict sw1, PDict sw1_twin]) (PList [PDict laptop, PDict laptop_twin]))
     ''wireless_clients'' = Inr (PList [PStr ''cc:dd'', PStr ''cc:dd''])"
  using no_deduplication [OF get_devices_controller get_clients_controller twins_eval(1,2) _ _
      twins_eval(5,6)]
  by (simp add: get_devices_controller get_clients_controller twins_eval)

text \<open>
  C9. When decoding the password raises, the login request raises or its response has a
  status other than 200, \<open>run\<close> ends the process with status 1, prints nothing to
  standard output and writes \<open>Authentication failed\<close> last to standard error.
\<close>

theorem authentication_failure_exits:
  assumes "(\<exists>e. password_decoded w = Inl e) \<or> (\<exists>e. login_response w = Inl e) \<or>
     (\<exists>c. login_response w = Inr c \<and> c \<noteq> 200)"
  shows "exit_status (run w) = 1 \<and> exit_status (run w) \<noteq> 0 \<and> stdout (run w) = [] \<and>
         stderr (run w) \<noteq> [] \<and> last (stderr (run w)) = ExitMessage ''Authentication failed''"
proof -
  from assms have "\<not> snd (authenticate w)"
    by (simp only: authenticate_fails)
  then show ?thesis
    by (simp add: run_stdout run_exit_status run_stderr_unauthenticated)
qed

theorem authentication_failure_exits_witness:
  "login_response unauthorized = Inr 401 \<and> (401::int) \<noteq> 200 \<and>
   exit_status (run unauthorized) = 1 \<and> stdout (run unauthorized) = [] \<and>
   stderr (run unauthorized) = [ExitMessage ''Authentication failed'']"
proof -
  have "(\<exists>e. password_decoded unauthorized = Inl e) \<or> (\<exists>e. login_response unauthorized = Inl e) \<or>
     (\<exists>c. login_response unauthorized = Inr c \<and> c \<noteq> 200)"
    by (simp add: unauthorized_def controller_def)
  from authentication_failure_exits [OF this]
  have "exit_status (run unauthorized) = 1 \<and> stdout (run unauthorized) = []"
    by simp
  moreover have "stderr (run unauthorized) = [ExitMessage ''Authentication failed'']"
    by (simp add: run_def authenticate_def unauthorized_def controller_def)
  ultimately show ?thesis
    by (simp add: unauthorized_def controller_def)
qed

text \<open>
  C10. Whenever \<open>build_inventory\<close> returns a document, every value of its
  \<open>_meta.hostvars\<close> is either a device entry (the seven device keys, \<open>unifi_device\<close>
  true, no \<open>unifi_client\<close> key) or a client entry (the six client keys,
  \<open>unifi_client\<close> true, no \<open>unifi_device\<close> key), and never both.
\<close>

theorem hostvars_entries_marked:
  assumes "snd (build_inventory w) = Inr doc"
  shows "\<exists>hv. hostvars_of doc = Inr (PDict hv) \<and>
           (\<forall>v\<in>snd ` set hv. device_entry v \<noteq> client_entry v)"
proof -
  from assms obtain xs ys where doc: "doc = assembled xs ys"
    unfolding build_inventory_returns by auto
  let ?hv = "stored client_hostname client_vars (stored device_hostname device_vars [] xs) ys"
  have "device_entry v \<noteq> client_entry v" if "v \<in> snd ` set ?hv" for v
  proof -
    from that obtain k where "(k, v) \<in> set ?hv" by auto
    then have "v \<in> snd ` set (stored device_hostname device_vars [] xs) \<or>
        (\<exists>y\<in>set ys. v = client_vars (entries y))"
      by (rule values_stored)
    then have "(\<exists>x\<in>set xs. v = device_vars (entries x)) \<or> (\<exists>y\<in>set ys. v = client_vars (entries y))"
      using values_stored [of _ v device_hostname device_vars "[]" xs] by auto
    then show ?thesis
      using device_vars_entry client_vars_entry by auto
  qed
  then show ?thesis
    by (simp add: doc assembled_def hostvars_of_document)
qed

theorem hostvars_entries_marked_witness:
  "snd (build_inventory (controller (PList [PDict host1_ap, PDict gw1]) (PList [PDict host1_pc]))) =
     Inr (document [(PStr ''host1'', client_vars host1_pc), (PStr ''gw1'', device_vars gw1)]
       [] [PStr ''host1''] [PStr ''gw1''] [PStr ''host1''] []) \<and>
   (\<exists>hv. hostvars_of (document [(PStr ''host1'', client_vars host1_pc), (PStr ''gw1'', device_vars gw1)]
       [] [PStr ''host1''] [PStr ''gw1''] [PStr ''host1''] []) = Inr (PDict hv) \<and>
     hv = [(PStr ''host1'', client_vars host1_pc), (PStr ''gw1'', device_vars gw1)] \<and>
     (\<forall>v\<in>snd ` set hv. device_entry v \<noteq> client_entry v))"
  using hostvars_entries_marked [OF example_collision]
  by (simp add: example_collision hostvars_of_document)

end
